theory Spec2Isabelle
  imports Main
begin

section \<open>Tokenizer\<close>

text \<open>
  Source text is a list of 8-bit characters; the tokenizer treats every character
  outside its ASCII classes alike. The class \<open>Tokenizer\<close> keeps a cursor \<open>index\<close> into
  the immutable \<open>source\<close> and the counters \<open>line\<close> and \<open>column\<close>; every method is a
  function on that record. \<open>peek\<close> and \<open>peekAhead\<close> return a string of length one, or the
  empty string past the end (JavaScript: \<open>source[i] ?? ''\<close>).

  Both compiler phases throw a plain \<open>Error\<close> whose message is
  \<open>msg (line l, column c)\<close>; the model keeps the three parts apart and tags the thrower:
  \<open>LexError\<close> for the tokenizer, \<open>SyntaxError\<close> for the parser.
\<close>

datatype TokenType =
  TT_Identifier | TT_Number | TT_String | TT_Operator | TT_Punctuation | TT_Newline | TT_EOF

record Token =
  ttype :: TokenType
  tvalue :: string
  tline :: nat
  tcolumn :: nat

datatype compile_error =
  LexError string nat nat
  | SyntaxError string nat nat
  | FuelExhausted

record Tokenizer =
  source :: string
  index :: nat
  line :: nat
  column :: nat

definition punctuationChars :: "string list" where
  "punctuationChars = [''('', '')'', ''{'', ''}'', ''['', '']'', '','', ''.'', '':'']"

definition singleCharOperators :: "string list" where
  "singleCharOperators = [''+'', ''-'', ''*'', ''/'', ''%'', ''!'', ''='', ''<'', ''>'', ''?'']"

definition pairedOperators :: "string list" where
  "pairedOperators = [''=='', ''!='', ''>='', ''<='', ''&&'', ''||'']"

definition peek :: "Tokenizer \<Rightarrow> string" where
  "peek t = (if index t < length (source t) then [source t ! index t] else [])"

definition peekAhead :: "Tokenizer \<Rightarrow> nat \<Rightarrow> string" where
  "peekAhead t offset =
     (if index t + offset < length (source t) then [source t ! (index t + offset)] else [])"

definition advance :: "Tokenizer \<Rightarrow> Tokenizer" where
  "advance t = t\<lparr>index := index t + 1\<rparr>"

definition isEOF :: "Tokenizer \<Rightarrow> bool" where
  "isEOF t = (index t \<ge> length (source t))"

definition createToken :: "Tokenizer \<Rightarrow> TokenType \<Rightarrow> string \<Rightarrow> Token" where
  "createToken t ty v = \<lparr>ttype = ty, tvalue = v, tline = line t, tcolumn = column t\<rparr>"

definition isWhitespace :: "string \<Rightarrow> bool" where
  "isWhitespace char = (char = '' '' \<or> char = [CHR 0x09] \<or> char = [CHR 0x0D])"

text \<open>
  \<open>isDigit\<close> compares strings (\<open>char >= '0' && char <= '9'\<close>); on the strings \<open>peek\<close>
  returns (one character or none) that is membership in the ten digits. The two regular
  expressions are character classes tested against the string, so they hold when some
  character of the string is in the class.
\<close>

definition isDigit :: "string \<Rightarrow> bool" where
  "isDigit char = (char \<in> set (map (\<lambda>c. [c]) ''0123456789''))"

definition isIdentifierStart :: "string \<Rightarrow> bool" where
  "isIdentifierStart char =
     list_ex (\<lambda>c. c \<in> set ''ABCDEFGHIJKLMNOPQRSTUVWXYZabcdefghijklmnopqrstuvwxyz_#'') char"

definition isIdentifierPart :: "string \<Rightarrow> bool" where
  "isIdentifierPart char =
     list_ex (\<lambda>c. c \<in> set ''ABCDEFGHIJKLMNOPQRSTUVWXYZabcdefghijklmnopqrstuvwxyz0123456789_#.-'') char"

text \<open>The body of the \<open>while\<close> loop of \<open>readString\<close>, after the opening quote.\<close>

function readString_loop ::
  "string \<Rightarrow> string \<Rightarrow> nat \<Rightarrow> nat \<Rightarrow> Tokenizer \<Rightarrow> compile_error + Token \<times> Tokenizer" where
  "readString_loop quote val startLine startColumn t =
     (if \<not> isEOF t then
        (let char = peek t in
         if char = [CHR 0x5C] then
           (let next = peekAhead t 1 in
            readString_loop quote (val @ char @ next) startLine startColumn
              ((advance (advance t))\<lparr>column := column t + 2\<rparr>))
         else if char = quote then
           Inr (\<lparr>ttype = TT_String, tvalue = quote @ val @ quote,
                 tline = startLine, tcolumn = startColumn\<rparr>,
                (advance t)\<lparr>column := column t + 1\<rparr>)
         else
           readString_loop quote (val @ char) startLine startColumn
             ((advance t)\<lparr>column := column t + 1\<rparr>))
      else Inl (LexError ''Unterminated string literal'' startLine startColumn))"
  by pat_completeness auto
termination
  by (relation "measure (\<lambda>(q, v, l, c, t). length (source t) - index t)")
     (auto simp: isEOF_def advance_def)

declare readString_loop.simps [simp del]

definition readString :: "Tokenizer \<Rightarrow> compile_error + Token \<times> Tokenizer" where
  "readString t =
     (let quote = peek t; startLine = line t; startColumn = column t in
      readString_loop quote [] startLine startColumn (advance t))"

text \<open>
  \<open>readNumber\<close> runs the same digit loop twice, before and after an optional decimal point;
  \<open>readDigits\<close> is that loop.
\<close>

function readDigits :: "string \<Rightarrow> Tokenizer \<Rightarrow> string \<times> Tokenizer" where
  "readDigits val t =
     (if \<not> isEOF t \<and> isDigit (peek t) then
        readDigits (val @ peek t) ((advance t)\<lparr>column := column t + 1\<rparr>)
      else (val, t))"
  by pat_completeness auto
termination
  by (relation "measure (\<lambda>(v, t). length (source t) - index t)")
     (auto simp: isEOF_def advance_def)

declare readDigits.simps [simp del]

definition readNumber :: "Tokenizer \<Rightarrow> Token \<times> Tokenizer" where
  "readNumber t =
     (let startLine = line t; startColumn = column t;
          (val, t1) = readDigits [] t;
          (val, t2) =
             (if \<not> isEOF t1 \<and> peek t1 = ''.'' then
                readDigits (val @ ''.'') ((advance t1)\<lparr>column := column t1 + 1\<rparr>)
              else (val, t1))
      in (\<lparr>ttype = TT_Number, tvalue = val, tline = startLine, tcolumn = startColumn\<rparr>, t2))"

function readIdentifier_loop :: "string \<Rightarrow> Tokenizer \<Rightarrow> string \<times> Tokenizer" where
  "readIdentifier_loop val t =
     (if \<not> isEOF t \<and> isIdentifierPart (peek t) then
        readIdentifier_loop (val @ peek t) ((advance t)\<lparr>column := column t + 1\<rparr>)
      else (val, t))"
  by pat_completeness auto
termination
  by (relation "measure (\<lambda>(v, t). length (source t) - index t)")
     (auto simp: isEOF_def advance_def)

declare readIdentifier_loop.simps [simp del]

definition readIdentifier :: "Tokenizer \<Rightarrow> Token \<times> Tokenizer" where
  "readIdentifier t =
     (let startLine = line t; startColumn = column t;
          (val, t') = readIdentifier_loop [] t
      in (\<lparr>ttype = TT_Identifier, tvalue = val, tline = startLine, tcolumn = startColumn\<rparr>, t'))"

text \<open>The readers never move the cursor backwards and never change the source.\<close>

lemma readString_loop_progress:
  "readString_loop q v l c t = Inr (tok, t') \<Longrightarrow>
     index t < index t' \<and> source t' = source t"
proof (induction q v l c t rule: readString_loop.induct)
  case (1 quote val startLine startColumn t)
  from "1.prems" have ne: "\<not> isEOF t"
    by (subst (asm) readString_loop.simps) (auto split: if_splits)
  show ?case
  proof (cases "peek t = [CHR 0x5C]")
    case True
    with ne "1.prems" have
      "readString_loop quote (val @ peek t @ peekAhead t 1) startLine startColumn
         ((advance (advance t))\<lparr>column := column t + 2\<rparr>) = Inr (tok, t')"
      by (subst (asm) readString_loop.simps) (simp add: Let_def)
    from "1.IH"(1)[OF ne refl True refl this] show ?thesis
      by (simp add: advance_def)
  next
    case False
    note nb = False
    show ?thesis
    proof (cases "peek t = quote")
      case True
      with ne nb "1.prems" show ?thesis
        by (subst (asm) readString_loop.simps) (auto simp: advance_def Let_def)
    next
      case False
      with ne nb "1.prems" have
        "readString_loop quote (val @ peek t) startLine startColumn
           ((advance t)\<lparr>column := column t + 1\<rparr>) = Inr (tok, t')"
        by (subst (asm) readString_loop.simps) (simp add: Let_def)
      from "1.IH"(2)[OF ne refl nb False this] show ?thesis
        by (simp add: advance_def)
    qed
  qed
qed

lemma readString_progress:
  "readString t = Inr (tok, t') \<Longrightarrow> index t < index t' \<and> source t' = source t"
  unfolding readString_def Let_def
  by (drule readString_loop_progress) (simp add: advance_def)

lemma readDigits_progress:
  "readDigits v t = (v', t') \<Longrightarrow> index t \<le> index t' \<and> source t' = source t"
proof (induction v t rule: readDigits.induct)
  case (1 val t)
  show ?case
  proof (cases "\<not> isEOF t \<and> isDigit (peek t)")
    case True
    with "1.prems" have
      "readDigits (val @ peek t) ((advance t)\<lparr>column := column t + 1\<rparr>) = (v', t')"
      by (subst (asm) readDigits.simps) simp
    from "1.IH"[OF True this] show ?thesis by (simp add: advance_def)
  next
    case False
    with "1.prems" show ?thesis
      by (subst (asm) readDigits.simps) auto
  qed
qed

lemma readDigits_step:
  assumes "\<not> isEOF t" "isDigit (peek t)" "readDigits v t = (v', t')"
  shows "index t < index t'"
proof -
  from assms have
    "readDigits (v @ peek t) ((advance t)\<lparr>column := column t + 1\<rparr>) = (v', t')"
    by (subst (asm) readDigits.simps) simp
  from readDigits_progress[OF this] show ?thesis by (simp add: advance_def)
qed

lemma readNumber_progress:
  assumes "\<not> isEOF t" "isDigit (peek t)" "readNumber t = (tok, t')"
  shows "index t < index t' \<and> source t' = source t"
proof -
  obtain v1 t1 where r1: "readDigits [] t = (v1, t1)" by (cases "readDigits [] t")
  from readDigits_step[OF assms(1,2) r1] readDigits_progress[OF r1]
  have p1: "index t < index t1" "source t1 = source t" by simp_all
  show ?thesis
  proof (cases "\<not> isEOF t1 \<and> peek t1 = ''.''")
    case True
    obtain v2 t2 where r2:
      "readDigits (v1 @ ''.'') ((advance t1)\<lparr>column := column t1 + 1\<rparr>) = (v2, t2)"
      by (cases "readDigits (v1 @ ''.'') ((advance t1)\<lparr>column := column t1 + 1\<rparr>)")
    from readDigits_progress[OF r2] have "index t1 \<le> index t2" "source t2 = source t1"
      by (simp_all add: advance_def)
    with p1 assms(3) r1 r2 True show ?thesis
      by (simp add: readNumber_def Let_def)
  next
    case False
    with p1 assms(3) r1 show ?thesis
      by (auto simp: readNumber_def Let_def)
  qed
qed

lemma readIdentifier_loop_progress:
  "readIdentifier_loop v t = (v', t') \<Longrightarrow> index t \<le> index t' \<and> source t' = source t"
proof (induction v t rule: readIdentifier_loop.induct)
  case (1 val t)
  show ?case
  proof (cases "\<not> isEOF t \<and> isIdentifierPart (peek t)")
    case True
    with "1.prems" have
      "readIdentifier_loop (val @ peek t) ((advance t)\<lparr>column := column t + 1\<rparr>) = (v', t')"
      by (subst (asm) readIdentifier_loop.simps) simp
    from "1.IH"[OF True this] show ?thesis by (simp add: advance_def)
  next
    case False
    with "1.prems" show ?thesis
      by (subst (asm) readIdentifier_loop.simps) auto
  qed
qed

lemma isIdentifierStart_Part: "isIdentifierStart char \<Longrightarrow> isIdentifierPart char"
  unfolding isIdentifierStart_def isIdentifierPart_def list_ex_iff by auto

lemma readIdentifier_progress:
  assumes "\<not> isEOF t" "isIdentifierStart (peek t)" "readIdentifier t = (tok, t')"
  shows "index t < index t' \<and> source t' = source t"
proof -
  obtain v1 t1 where r1: "readIdentifier_loop [] t = (v1, t1)"
    by (cases "readIdentifier_loop [] t")
  from assms(1,2) r1 have
    "readIdentifier_loop ([] @ peek t) ((advance t)\<lparr>column := column t + 1\<rparr>) = (v1, t1)"
    by (subst (asm) readIdentifier_loop.simps) (simp add: isIdentifierStart_Part)
  from readIdentifier_loop_progress[OF this] have "index t < index t1" "source t1 = source t"
    by (simp_all add: advance_def)
  with r1 assms(3) show ?thesis
    by (auto simp: readIdentifier_def Let_def)
qed

text \<open>
  The main loop of \<open>tokenize\<close>; \<open>tokens\<close> is the array built so far. Each branch is one
  \<open>if (...) { ...; continue; }\<close> of the source, in the source's order.
\<close>

function tokenize_loop :: "Token list \<Rightarrow> Tokenizer \<Rightarrow> compile_error + Token list" where
  "tokenize_loop tokens t =
     (if \<not> isEOF t then
        (let char = peek t in
         if char = [CHR 0x0A] then
           tokenize_loop (tokens @ [createToken t TT_Newline [CHR 0x0A]])
             ((advance t)\<lparr>line := line t + 1, column := 1\<rparr>)
         else if isWhitespace char then
           tokenize_loop tokens (advance t)
         else if char = [CHR 0x22] \<or> char = [CHR 0x27] then
           (case readString t of
              Inl e \<Rightarrow> Inl e
            | Inr (tok, t') \<Rightarrow> tokenize_loop (tokens @ [tok]) t')
         else if isDigit char then
           (case readNumber t of (tok, t') \<Rightarrow> tokenize_loop (tokens @ [tok]) t')
         else if isIdentifierStart char then
           (case readIdentifier t of (tok, t') \<Rightarrow> tokenize_loop (tokens @ [tok]) t')
         else if char = ''-'' \<and> peekAhead t 1 = ''>'' then
           tokenize_loop (tokens @ [createToken t TT_Operator ''->''])
             ((advance (advance t))\<lparr>column := column t + 2\<rparr>)
         else
           (let twoChar = char @ peekAhead t 1 in
            if twoChar \<in> set pairedOperators then
              tokenize_loop (tokens @ [createToken t TT_Operator twoChar])
                ((advance (advance t))\<lparr>column := column t + 2\<rparr>)
            else if char \<in> set punctuationChars then
              tokenize_loop (tokens @ [createToken t TT_Punctuation char])
                ((advance t)\<lparr>column := column t + 1\<rparr>)
            else if char \<in> set singleCharOperators then
              tokenize_loop (tokens @ [createToken t TT_Operator char])
                ((advance t)\<lparr>column := column t + 1\<rparr>)
            else
              Inl (LexError (''Unexpected character '' @ [CHR 0x27] @ char @ [CHR 0x27])
                     (line t) (column t))))
      else Inr (tokens @ [createToken t TT_EOF []]))"
  by pat_completeness auto
termination
proof (relation "measure (\<lambda>(tokens, t). length (source t) - index t)", goal_cases)
  case 1
  show ?case by simp
next
  case (2 tokens t x)
  then show ?case by (auto simp: isEOF_def advance_def)
next
  case (3 tokens t x)
  then show ?case by (auto simp: isEOF_def advance_def)
next
  case (4 tokens t x x2 xa y)
  from readString_progress[of t xa y] 4 show ?case
    by (auto simp: isEOF_def)
next
  case (5 tokens t x xa y)
  from readNumber_progress[of t xa y] 5 show ?case
    by (auto simp: isEOF_def)
next
  case (6 tokens t x xa y)
  from readIdentifier_progress[of t xa y] 6 show ?case
    by (auto simp: isEOF_def)
next
  case (7 tokens t x)
  then show ?case by (auto simp: isEOF_def advance_def)
next
  case (8 tokens t x xa)
  then show ?case by (auto simp: isEOF_def advance_def)
next
  case (9 tokens t x xa)
  then show ?case by (auto simp: isEOF_def advance_def)
next
  case (10 tokens t x xa)
  then show ?case by (auto simp: isEOF_def advance_def)
qed

declare tokenize_loop.simps [simp del]

definition tokenize :: "string \<Rightarrow> compile_error + Token list" where
  "tokenize src = tokenize_loop [] \<lparr>source = src, index = 0, line = 1, column = 1\<rparr>"

text \<open>
  \<open>scan_step\<close> is the body of that loop, one iteration, with the same branches in the
  same order: it throws, or returns the token the iteration pushes (none for a blank)
  and the state the loop goes on with. \<open>tokenize_loop_unfold\<close> proves that the loop is
  the repetition of \<open>scan_step\<close>.
\<close>

definition scan_step :: "Tokenizer \<Rightarrow> compile_error + Token option \<times> Tokenizer" where
  "scan_step t =
     (let char = peek t in
      if char = [CHR 0x0A] then
        Inr (Some (createToken t TT_Newline [CHR 0x0A]),
             (advance t)\<lparr>line := line t + 1, column := 1\<rparr>)
      else if isWhitespace char then Inr (None, advance t)
      else if char = [CHR 0x22] \<or> char = [CHR 0x27] then
        (case readString t of Inl e \<Rightarrow> Inl e | Inr (tok, t') \<Rightarrow> Inr (Some tok, t'))
      else if isDigit char then
        (case readNumber t of (tok, t') \<Rightarrow> Inr (Some tok, t'))
      else if isIdentifierStart char then
        (case readIdentifier t of (tok, t') \<Rightarrow> Inr (Some tok, t'))
      else if char = ''-'' \<and> peekAhead t 1 = ''>'' then
        Inr (Some (createToken t TT_Operator ''->''),
             (advance (advance t))\<lparr>column := column t + 2\<rparr>)
      else if char @ peekAhead t 1 \<in> set pairedOperators then
        Inr (Some (createToken t TT_Operator (char @ peekAhead t 1)),
             (advance (advance t))\<lparr>column := column t + 2\<rparr>)
      else if char \<in> set punctuationChars then
        Inr (Some (createToken t TT_Punctuation char), (advance t)\<lparr>column := column t + 1\<rparr>)
      else if char \<in> set singleCharOperators then
        Inr (Some (createToken t TT_Operator char), (advance t)\<lparr>column := column t + 1\<rparr>)
      else
        Inl (LexError (''Unexpected character '' @ [CHR 0x27] @ char @ [CHR 0x27])
               (line t) (column t)))"

lemma tokenize_loop_unfold:
  "tokenize_loop tokens t =
     (if isEOF t then Inr (tokens @ [createToken t TT_EOF []])
      else case scan_step t of
             Inl e \<Rightarrow> Inl e
           | Inr (None, t') \<Rightarrow> tokenize_loop tokens t'
           | Inr (Some tok, t') \<Rightarrow> tokenize_loop (tokens @ [tok]) t')"
  by (subst tokenize_loop.simps)
     (simp add: scan_step_def Let_def split: sum.splits prod.splits)

lemma scan_step_progress:
  assumes "\<not> isEOF t" "scan_step t = Inr (otok, t')"
  shows "index t < index t' \<and> source t' = source t"
proof -
  let ?c = "peek t"
  consider (nl) "?c = [CHR 0x0A]"
    | (ws) "?c \<noteq> [CHR 0x0A]" "isWhitespace ?c"
    | (str) "?c \<noteq> [CHR 0x0A]" "\<not> isWhitespace ?c" "?c = [CHR 0x22] \<or> ?c = [CHR 0x27]"
    | (num) "?c \<noteq> [CHR 0x0A]" "\<not> isWhitespace ?c" "\<not> (?c = [CHR 0x22] \<or> ?c = [CHR 0x27])"
            "isDigit ?c"
    | (ident) "?c \<noteq> [CHR 0x0A]" "\<not> isWhitespace ?c" "\<not> (?c = [CHR 0x22] \<or> ?c = [CHR 0x27])"
            "\<not> isDigit ?c" "isIdentifierStart ?c"
    | (other) "?c \<noteq> [CHR 0x0A]" "\<not> isWhitespace ?c" "\<not> (?c = [CHR 0x22] \<or> ?c = [CHR 0x27])"
            "\<not> isDigit ?c" "\<not> isIdentifierStart ?c"
    by blast
  then show ?thesis
  proof cases
    case nl
    with assms show ?thesis by (auto simp: scan_step_def advance_def)
  next
    case ws
    with assms show ?thesis by (auto simp: scan_step_def advance_def)
  next
    case str
    with assms readString_progress[of t _ t'] show ?thesis
      by (auto simp: scan_step_def split: sum.splits)
  next
    case num
    with assms readNumber_progress[of t _ t'] show ?thesis
      by (auto simp: scan_step_def split: prod.splits)
  next
    case ident
    with assms readIdentifier_progress[of t _ t'] show ?thesis
      by (auto simp: scan_step_def split: prod.splits)
  next
    case other
    with assms show ?thesis
      by (auto simp: scan_step_def advance_def Let_def split: if_splits)
  qed
qed

lemma tokenize_loop_cases_induct [case_names eof err skip tok]:
  assumes eof: "\<And>tokens t. isEOF t \<Longrightarrow> P tokens t"
    and err: "\<And>tokens t e. \<not> isEOF t \<Longrightarrow> scan_step t = Inl e \<Longrightarrow> P tokens t"
    and skip: "\<And>tokens t t'. \<not> isEOF t \<Longrightarrow> scan_step t = Inr (None, t') \<Longrightarrow>
                 P tokens t' \<Longrightarrow> P tokens t"
    and tok: "\<And>tokens t tok t'. \<not> isEOF t \<Longrightarrow> scan_step t = Inr (Some tok, t') \<Longrightarrow>
                 P (tokens @ [tok]) t' \<Longrightarrow> P tokens t"
  shows "P tokens t"
proof (induction "length (source t) - index t" arbitrary: tokens t rule: less_induct)
  case less
  show ?case
  proof (cases "isEOF t")
    case True
    then show ?thesis by (rule eof)
  next
    case False
    note ne = False
    show ?thesis
    proof (cases "scan_step t")
      case (Inl e)
      with ne show ?thesis by (rule err)
    next
      case (Inr p)
      obtain otok t' where p: "p = (otok, t')" by (cases p)
      from scan_step_progress[OF ne Inr[unfolded p]] ne
      have dec: "length (source t') - index t' < length (source t) - index t"
        by (auto simp: isEOF_def)
      show ?thesis
      proof (cases otok)
        case None
        with Inr p ne less(1)[OF dec] show ?thesis by (auto intro: skip)
      next
        case (Some tk)
        with Inr p ne less(1)[OF dec] show ?thesis by (auto intro: tok)
      qed
    qed
  qed
qed

lemma readString_loop_type:
  "readString_loop q v l c t = Inr (tok, t') \<Longrightarrow> ttype tok = TT_String"
proof (induction q v l c t rule: readString_loop.induct)
  case (1 quote val startLine startColumn t)
  from "1.prems" have ne: "\<not> isEOF t"
    by (subst (asm) readString_loop.simps) (auto split: if_splits)
  from "1.prems" ne "1.IH" show ?case
    by (subst (asm) readString_loop.simps) (auto simp: Let_def split: if_splits)
qed

lemma readString_type: "readString t = Inr (tok, t') \<Longrightarrow> ttype tok = TT_String"
  unfolding readString_def Let_def by (rule readString_loop_type)

lemma readNumber_type: "readNumber t = (tok, t') \<Longrightarrow> ttype tok = TT_Number"
  by (auto simp: readNumber_def Let_def split: prod.splits if_splits)

lemma readIdentifier_type: "readIdentifier t = (tok, t') \<Longrightarrow> ttype tok = TT_Identifier"
  by (auto simp: readIdentifier_def Let_def split: prod.splits)

lemma scan_step_type:
  "scan_step t = Inr (Some tok, t') \<Longrightarrow> ttype tok \<noteq> TT_EOF"
  by (auto simp: scan_step_def Let_def createToken_def
           dest: readString_type readNumber_type readIdentifier_type
           split: if_splits sum.splits prod.splits)

definition eof_terminated :: "Token list \<Rightarrow> bool" where
  "eof_terminated ts =
     (ts \<noteq> [] \<and> ttype (last ts) = TT_EOF \<and> tvalue (last ts) = [] \<and>
      list_all (\<lambda>tok. ttype tok \<noteq> TT_EOF) (butlast ts))"

lemma tokenize_loop_eof:
  "tokenize_loop tokens t = Inr ts \<Longrightarrow> list_all (\<lambda>tok. ttype tok \<noteq> TT_EOF) tokens \<Longrightarrow>
     eof_terminated ts"
proof (induction tokens t rule: tokenize_loop_cases_induct)
  case (eof tokens t)
  then show ?case
    by (subst (asm) tokenize_loop_unfold) (auto simp: eof_terminated_def createToken_def)
next
  case (err tokens t e)
  then show ?case by (subst (asm) tokenize_loop_unfold) simp
next
  case (skip tokens t t')
  from skip(1,2,4) have "tokenize_loop tokens t' = Inr ts"
    by (subst (asm) tokenize_loop_unfold) simp
  from skip(3)[OF this skip(5)] show ?case .
next
  case (tok tokens t tk t')
  from tok(1,2,4) have "tokenize_loop (tokens @ [tk]) t' = Inr ts"
    by (subst (asm) tokenize_loop_unfold) simp
  moreover from tok(5) scan_step_type[OF tok(2)]
  have "list_all (\<lambda>tok. ttype tok \<noteq> TT_EOF) (tokens @ [tk])" by simp
  ultimately show ?case by (rule tok(3))
qed

text \<open>
  The position of the character at index \<open>i\<close> of a text, as an editor counts it: lines
  and columns start at 1, a newline ends its line. This is the reference the positions
  kept by the tokenizer are compared with.
\<close>

definition char_position :: "string \<Rightarrow> nat \<Rightarrow> nat \<times> nat" where
  "char_position src i =
     (1 + length (filter (\<lambda>c. c = CHR 0x0A) (take i src)),
      1 + length (takeWhile (\<lambda>c. c \<noteq> CHR 0x0A) (rev (take i src))))"


















subsection \<open>Properties of the tokenizer\<close>



text \<open>
  C7. The tokenizer run on the scenario of the specification, \<open>template t = "abc\<close>. The
  opening quote is the character at index 13, that is line 1, column 14
  (\<open>char_position\<close>). The error carries the counters saved by \<open>readString\<close>, line 1 and
  column 11: the whitespace branch of \<open>tokenize\<close> advances the cursor without advancing
  \<open>column\<close>, so the three blanks before the quote are not counted.
\<close>

theorem unterminated_string_position:
  \<open>tokenize ''template t = "abc'' = Inl (LexError ''Unterminated string literal'' 1 11) \<and>
   ''template t = "abc'' ! 13 = CHR 0x22 \<and>
   char_position ''template t = "abc'' 13 = (1, 14)\<close>
  by code_simp

text \<open>
  C9. Whenever \<open>tokenize\<close> returns, the token sequence is not empty, its last token has
  type \<open>eof\<close> and an empty value, and no earlier token has type \<open>eof\<close>; on the empty
  input the result is the single \<open>eof\<close> token, at line 1, column 1.
\<close>

theorem tokenize_eof_last:
  "(tokenize src = Inr ts \<longrightarrow> eof_terminated ts) \<and>
   tokenize [] = Inr [\<lparr>ttype = TT_EOF, tvalue = [], tline = 1, tcolumn = 1\<rparr>]"
proof
  show "tokenize src = Inr ts \<longrightarrow> eof_terminated ts"
    unfolding tokenize_def by (auto elim: tokenize_loop_eof)
  show "tokenize [] = Inr [\<lparr>ttype = TT_EOF, tvalue = [], tline = 1, tcolumn = 1\<rparr>]"
    by (simp add: tokenize_def tokenize_loop.simps isEOF_def createToken_def)
qed

theorem tokenize_eof_last_witness:
  "tokenize ''n = 1'' =
     Inr [\<lparr>ttype = TT_Identifier, tvalue = ''n'', tline = 1, tcolumn = 1\<rparr>,
          \<lparr>ttype = TT_Operator, tvalue = ''='', tline = 1, tcolumn = 2\<rparr>,
          \<lparr>ttype = TT_Number, tvalue = ''1'', tline = 1, tcolumn = 3\<rparr>,
          \<lparr>ttype = TT_EOF, tvalue = [], tline = 1, tcolumn = 4\<rparr>] \<and>
   eof_terminated
         [\<lparr>ttype = TT_Identifier, tvalue = ''n'', tline = 1, tcolumn = 1\<rparr>,
          \<lparr>ttype = TT_Operator, tvalue = ''='', tline = 1, tcolumn = 2\<rparr>,
          \<lparr>ttype = TT_Number, tvalue = ''1'', tline = 1, tcolumn = 3\<rparr>,
          \<lparr>ttype = TT_EOF, tvalue = [], tline = 1, tcolumn = 4\<rparr>]"
proof -
  have h: "tokenize ''n = 1'' =
     Inr [\<lparr>ttype = TT_Identifier, tvalue = ''n'', tline = 1, tcolumn = 1\<rparr>,
          \<lparr>ttype = TT_Operator, tvalue = ''='', tline = 1, tcolumn = 2\<rparr>,
          \<lparr>ttype = TT_Number, tvalue = ''1'', tline = 1, tcolumn = 3\<rparr>,
          \<lparr>ttype = TT_EOF, tvalue = [], tline = 1, tcolumn = 4\<rparr>]"
    by code_simp
  from tokenize_eof_last[THEN conjunct1, rule_format, OF h] h show ?thesis by simp
qed

section \<open>Abstract syntax\<close>

text \<open>
  The tagged unions of \<open>ast.ts\<close>. A \<open>BlockStatement\<close> is its list of statements. A
  literal carries the value the parser stores for its \<open>literalType\<close>: a text, a boolean,
  or the number \<open>Number(token.value)\<close>; the double itself is not computed, \<open>Number txt\<close>
  stands for it. The alternate of an \<open>IfStatement\<close> is a block or another \<open>IfStatement\<close>,
  so the fields of an \<open>IfStatement\<close> are a type of their own, \<open>IfNode\<close>.
\<close>

datatype jsnumber = Number string

datatype LiteralValue = NumberValue jsnumber | TextValue string | BoolValue bool

datatype Expression =
    Identifier string
  | Literal LiteralValue
  | BinaryExpression string Expression Expression
  | LogicalExpression string Expression Expression
  | UnaryExpression string Expression
  | CallExpression Expression "Expression list"
  | MemberExpression Expression string
  | ListExpression "Expression list"
  | MapExpression "(string \<times> Expression) list"
  | LambdaExpression "string list" LambdaBody
  | RenderExpression string Expression
  | GetExpression Expression string "Expression option"
  | Group Expression
and LambdaBody =
    BlockBody "Statement list"
  | ExpressionBody Expression
and Statement =
    LetStatement string Expression
  | AssignmentStatement Expression Expression
  | ListenStatement Expression string "Statement list"
  | SetStatement Expression string Expression "Expression option"
  | AddStatement Expression string Expression
  | ToggleStatement Expression string "Expression option"
  | SendStatement Expression string Expression "(string list \<times> Statement list) list"
  | TemplateStatement string string
  | BindStatement Expression Expression string
  | CallJsStatement Expression "Expression option"
  | IfStatement IfNode
  | ForStatement string Expression "Statement list"
  | ExpressionStatement Expression
and IfNode =
    IfNode Expression "Statement list" "Alternate option"
and Alternate =
    ElseBlock "Statement list"
  | ElseIf IfNode

section \<open>Code generator\<close>

text \<open>
  The class \<open>CodeGenerator\<close> has two fields, the output buffer (a list of emitted chunks,
  joined at the end) and the indentation level; every method is a function that takes the
  generator and returns it updated. The field \<open>output\<close> is called \<open>output_buf\<close> here.

  Library functions of JavaScript are modelled on 8-bit characters: \<open>join\<close> is
  \<open>Array.prototype.join\<close>, \<open>JSON_stringify\<close> is \<open>JSON.stringify\<close> on a string,
  \<open>toUpperCase\<close> maps the letters a to z (method names come from identifier tokens, which
  are ASCII). \<open>String(value)\<close> on a number is a parameter of the generator,
  \<open>numberText\<close>, since it is floating-point formatting.
\<close>

record CodeGenerator =
  output_buf :: "string list"
  indentLevel :: nat

fun join :: "string \<Rightarrow> string list \<Rightarrow> string" where
  "join sep [] = []"
| "join sep [x] = x"
| "join sep (x # y # ys) = x @ sep @ join sep (y # ys)"

definition hexDigit :: "nat \<Rightarrow> char" where
  "hexDigit n = ''0123456789abcdef'' ! (n mod 16)"

definition quoteChar :: "char \<Rightarrow> string" where
  "quoteChar c =
     (if c = CHR 0x22 then [CHR 0x5C, CHR 0x22]
      else if c = CHR 0x5C then [CHR 0x5C, CHR 0x5C]
      else if c = CHR 0x08 then [CHR 0x5C, CHR ''b'']
      else if c = CHR 0x0C then [CHR 0x5C, CHR ''f'']
      else if c = CHR 0x0A then [CHR 0x5C, CHR ''n'']
      else if c = CHR 0x0D then [CHR 0x5C, CHR ''r'']
      else if c = CHR 0x09 then [CHR 0x5C, CHR ''t'']
      else if (of_char c :: nat) < 32 then
        [CHR 0x5C, CHR ''u'', CHR ''0'', CHR ''0'',
         hexDigit (of_char c div 16), hexDigit (of_char c)]
      else [c])"

definition JSON_stringify :: "string \<Rightarrow> string" where
  "JSON_stringify s = [CHR 0x22] @ concat (map quoteChar s) @ [CHR 0x22]"

definition toUpperCase :: "string \<Rightarrow> string" where
  "toUpperCase s =
     map (\<lambda>c. case map_of (zip ''abcdefghijklmnopqrstuvwxyz'' ''ABCDEFGHIJKLMNOPQRSTUVWXYZ'') c of
                Some u \<Rightarrow> u
              | None \<Rightarrow> c) s"

definition charMap :: "char \<Rightarrow> string" where
  "charMap c =
     (if c = CHR ''<'' then [CHR 0x5C] @ ''u003C''
      else if c = CHR ''>'' then [CHR 0x5C] @ ''u003E''
      else if c = CHR ''/'' then [CHR 0x5C] @ ''u002F''
      else if c = CHR 0x5C then [CHR 0x5C, CHR 0x5C]
      else if c = CHR 0x08 then [CHR 0x5C] @ ''b''
      else if c = CHR 0x0C then [CHR 0x5C] @ ''f''
      else if c = CHR 0x0A then [CHR 0x5C] @ ''n''
      else if c = CHR 0x0D then [CHR 0x5C] @ ''r''
      else if c = CHR 0x09 then [CHR 0x5C] @ ''t''
      else if c = CHR 0x00 then [CHR 0x5C] @ ''0''
      else [c])"

definition escapeUnsafeChars :: "string \<Rightarrow> string" where
  "escapeUnsafeChars str = concat (map charMap str)"

definition indentString :: "nat \<Rightarrow> string" where
  "indentString level = concat (replicate level ''  '')"

definition formatObjectKey :: "string \<Rightarrow> string" where
  "formatObjectKey key =
     (if key \<noteq> [] \<and>
         hd key \<in> set ''ABCDEFGHIJKLMNOPQRSTUVWXYZabcdefghijklmnopqrstuvwxyz_'' \<and>
         list_all (\<lambda>c. c \<in> set ''ABCDEFGHIJKLMNOPQRSTUVWXYZabcdefghijklmnopqrstuvwxyz0123456789_'')
           (tl key)
      then key else JSON_stringify key)"

definition precedenceForOperator :: "string \<Rightarrow> nat" where
  "precedenceForOperator operator =
     (if operator = ''*'' \<or> operator = ''/'' \<or> operator = ''%'' then 6
      else if operator = ''+'' \<or> operator = ''-'' then 5
      else if operator = ''>'' \<or> operator = ''>='' \<or> operator = ''<'' \<or> operator = ''<='' then 4
      else if operator = ''=='' \<or> operator = ''!='' then 3
      else 0)"

definition emitLine :: "string \<Rightarrow> CodeGenerator \<Rightarrow> CodeGenerator" where
  "emitLine ln g = g\<lparr>output_buf := output_buf g @ [indentString (indentLevel g) @ ln @ [CHR 0x0A]]\<rparr>"

definition emitRaw :: "string \<Rightarrow> CodeGenerator \<Rightarrow> CodeGenerator" where
  "emitRaw text g = g\<lparr>output_buf := output_buf g @ [text]\<rparr>"

definition capture ::
  "nat \<Rightarrow> (CodeGenerator \<Rightarrow> CodeGenerator) \<Rightarrow> CodeGenerator \<Rightarrow> string \<times> CodeGenerator" where
  "capture indent fn g =
     (let previousOutput = output_buf g;
          previousIndent = indentLevel g;
          g1 = fn (g\<lparr>output_buf := [], indentLevel := indent\<rparr>);
          result = concat (output_buf g1)
      in (result, g1\<lparr>output_buf := previousOutput, indentLevel := previousIndent\<rparr>))"

definition emitCaptured ::
  "nat \<Rightarrow> (CodeGenerator \<Rightarrow> CodeGenerator) \<Rightarrow> CodeGenerator \<Rightarrow> CodeGenerator" where
  "emitCaptured indent fn g = (case capture indent fn g of (text, g') \<Rightarrow> emitRaw text g')"

lemma capture_cong [fundef_cong]:
  "indent = indent' \<Longrightarrow> g = g' \<Longrightarrow> (\<And>h. fn h = fn' h) \<Longrightarrow>
     capture indent fn g = capture indent' fn' g'"
  by (simp add: capture_def)

lemma emitCaptured_cong [fundef_cong]:
  "indent = indent' \<Longrightarrow> g = g' \<Longrightarrow> (\<And>h. fn h = fn' h) \<Longrightarrow>
     emitCaptured indent fn g = emitCaptured indent' fn' g'"
  by (simp add: emitCaptured_def capture_def)

definition generateLiteral :: "(jsnumber \<Rightarrow> string) \<Rightarrow> LiteralValue \<Rightarrow> string" where
  "generateLiteral numberText v =
     (case v of
        TextValue s \<Rightarrow> JSON_stringify s
      | NumberValue n \<Rightarrow> numberText n
      | BoolValue b \<Rightarrow> (if b then ''true'' else ''false''))"

text \<open>
  The generator proper. \<open>generateExpression\<close> returns the text of an expression and the
  generator (a lambda with a block body renders its body through \<open>capture\<close>); the
  methods it dispatches to (\<open>generateBinary\<close>, \<open>generateLogical\<close>, \<open>generateUnary\<close>,
  \<open>generateLambda\<close>, \<open>generateGet\<close>) are the equations for their node type, and likewise
  for \<open>generateStatement\<close>. \<open>generateExpressions\<close> and \<open>generateEntries\<close> are the two
  \<open>map\<close> calls over arguments, list elements and map entries; \<open>generateThenClauses\<close> is
  the \<open>forEach\<close> over the chain of a \<open>send\<close>.
\<close>

function (sequential) generateExpression ::
      "(jsnumber \<Rightarrow> string) \<Rightarrow> Expression \<Rightarrow> nat \<Rightarrow> CodeGenerator \<Rightarrow> string \<times> CodeGenerator"
  and generateExpressions ::
      "(jsnumber \<Rightarrow> string) \<Rightarrow> Expression list \<Rightarrow> CodeGenerator \<Rightarrow> string list \<times> CodeGenerator"
  and generateEntries ::
      "(jsnumber \<Rightarrow> string) \<Rightarrow> (string \<times> Expression) list \<Rightarrow> CodeGenerator \<Rightarrow>
         string list \<times> CodeGenerator"
  and generateStatement ::
      "(jsnumber \<Rightarrow> string) \<Rightarrow> Statement \<Rightarrow> CodeGenerator \<Rightarrow> CodeGenerator"
  and generateThenClauses ::
      "(jsnumber \<Rightarrow> string) \<Rightarrow> nat \<Rightarrow> (string list \<times> Statement list) list \<Rightarrow>
         CodeGenerator \<Rightarrow> CodeGenerator"
  and generateIf ::
      "(jsnumber \<Rightarrow> string) \<Rightarrow> IfNode \<Rightarrow> bool \<Rightarrow> CodeGenerator \<Rightarrow> CodeGenerator"
  and generateBlock ::
      "(jsnumber \<Rightarrow> string) \<Rightarrow> Statement list \<Rightarrow> CodeGenerator \<Rightarrow> CodeGenerator"
where
  "generateExpression ns (Literal v) parentPrecedence g = (generateLiteral ns v, g)"
| "generateExpression ns (Identifier name) parentPrecedence g = (name, g)"
| "generateExpression ns (BinaryExpression operator left right) parentPrecedence g =
     (if operator = ''+'' then
        (case generateExpression ns left 0 g of (l, g1) \<Rightarrow>
         case generateExpression ns right 0 g1 of (r, g2) \<Rightarrow>
           (''sprout.ops.add('' @ l @ '', '' @ r @ '')'', g2))
      else if operator = ''-'' then
        (case generateExpression ns left 0 g of (l, g1) \<Rightarrow>
         case generateExpression ns right 0 g1 of (r, g2) \<Rightarrow>
           (''sprout.ops.subtract('' @ l @ '', '' @ r @ '')'', g2))
      else if operator = ''=='' then
        (case generateExpression ns left 0 g of (l, g1) \<Rightarrow>
         case generateExpression ns right 0 g1 of (r, g2) \<Rightarrow>
           (''sprout.ops.equals('' @ l @ '', '' @ r @ '')'', g2))
      else if operator = ''!='' then
        (case generateExpression ns left 0 g of (l, g1) \<Rightarrow>
         case generateExpression ns right 0 g1 of (r, g2) \<Rightarrow>
           (''sprout.ops.notEquals('' @ l @ '', '' @ r @ '')'', g2))
      else
        (let precedence = precedenceForOperator operator in
         (case generateExpression ns left precedence g of (l, g1) \<Rightarrow>
          (case generateExpression ns right (precedence + 1) g1 of (r, g2) \<Rightarrow>
            (let result = l @ '' '' @ operator @ '' '' @ r in
             (if precedence < parentPrecedence then ''('' @ result @ '')'' else result, g2))))))"
| "generateExpression ns (LogicalExpression operator left right) parentPrecedence g =
     (let precedence = (if operator = ''||'' then 1 else 2) in
      (case generateExpression ns left precedence g of (l, g1) \<Rightarrow>
       (case generateExpression ns right (precedence + 1) g1 of (r, g2) \<Rightarrow>
         (let result = l @ '' '' @ operator @ '' '' @ r in
          (if precedence < parentPrecedence then ''('' @ result @ '')'' else result, g2)))))"
| "generateExpression ns (UnaryExpression operator argument) parentPrecedence g =
     (case generateExpression ns argument 0 g of (a, g1) \<Rightarrow>
        if operator = ''-'' then (''sprout.ops.negate('' @ a @ '')'', g1)
        else if operator = ''!'' then (''!('' @ a @ '')'', g1)
        else (operator @ a, g1))"
| "generateExpression ns (CallExpression callee arguments) parentPrecedence g =
     (case generateExpression ns callee 100 g of (c, g1) \<Rightarrow>
      case generateExpressions ns arguments g1 of (args, g2) \<Rightarrow>
        (c @ ''('' @ join '', '' args @ '')'', g2))"
| "generateExpression ns (MemberExpression object property) parentPrecedence g =
     (case generateExpression ns object 100 g of (ob, g1) \<Rightarrow> (ob @ ''.'' @ property, g1))"
| "generateExpression ns (ListExpression elements) parentPrecedence g =
     (case generateExpressions ns elements g of (els, g1) \<Rightarrow>
        (''['' @ join '', '' els @ '']'', g1))"
| "generateExpression ns (MapExpression entries) parentPrecedence g =
     (case generateEntries ns entries g of (ents, g1) \<Rightarrow>
        (''{'' @ join '', '' ents @ ''}'', g1))"
| "generateExpression ns (LambdaExpression params body) parentPrecedence g =
     (let ps = (if length params > 0 then join '', '' params else []) in
      case body of
        BlockBody blockBody \<Rightarrow>
          (case capture (indentLevel g + 1) (\<lambda>h. generateBlock ns blockBody h) g of (b, g1) \<Rightarrow>
             (''('' @ ps @ '') => {'' @ [CHR 0x0A] @ b @ indentString (indentLevel g1) @ ''}'', g1))
      | ExpressionBody e \<Rightarrow>
          (case generateExpression ns e 0 g of (b, g1) \<Rightarrow>
             (''('' @ ps @ '') => '' @ b, g1)))"
| "generateExpression ns (RenderExpression template val) parentPrecedence g =
     (case generateExpression ns val 0 g of (v, g1) \<Rightarrow>
        (''sprout.render('' @ JSON_stringify template @ '', '' @ v @ '')'', g1))"
| "generateExpression ns (GetExpression target property extra) parentPrecedence g =
     (case generateExpression ns target 0 g of (tg, g1) \<Rightarrow>
       (let prop = JSON_stringify property in
        (case extra of
           Some ex \<Rightarrow>
             (case generateExpression ns ex 0 g1 of (x, g2) \<Rightarrow>
                (''sprout.get('' @ tg @ '', '' @ prop @ '', '' @ x @ '')'', g2))
         | None \<Rightarrow> (''sprout.get('' @ tg @ '', '' @ prop @ '')'', g1))))"
| "generateExpression ns (Group expression) parentPrecedence g =
     (case generateExpression ns expression 0 g of (e, g1) \<Rightarrow> (''('' @ e @ '')'', g1))"
| "generateExpressions ns [] g = ([], g)"
| "generateExpressions ns (e # es) g =
     (case generateExpression ns e 0 g of (x, g1) \<Rightarrow>
      case generateExpressions ns es g1 of (xs, g2) \<Rightarrow> (x # xs, g2))"
| "generateEntries ns [] g = ([], g)"
| "generateEntries ns ((key, val) # es) g =
     (case generateExpression ns val 0 g of (v, g1) \<Rightarrow>
      case generateEntries ns es g1 of (xs, g2) \<Rightarrow>
        ((formatObjectKey key @ '': '' @ v) # xs, g2))"
| "generateStatement ns (LetStatement name val) g =
     (case generateExpression ns val 0 g of (v, g1) \<Rightarrow>
        emitLine (''let '' @ name @ '' = '' @ v @ '';'') g1)"
| "generateStatement ns (AssignmentStatement target val) g =
     (case generateExpression ns target 0 g of (tg, g1) \<Rightarrow>
      case generateExpression ns val 0 g1 of (v, g2) \<Rightarrow>
        emitLine (tg @ '' = '' @ v @ '';'') g2)"
| "generateStatement ns (ListenStatement selector event body) g =
     (case generateExpression ns selector 0 g of (sel, g1) \<Rightarrow>
       (let g2 = emitLine (''sprout.listen('' @ sel @ '', '' @ JSON_stringify event @
                            '', (event) => {'') g1;
            g3 = emitCaptured (indentLevel g2 + 1) (\<lambda>h. generateBlock ns body h) g2
        in emitLine ''});'' g3))"
| "generateStatement ns (SetStatement target property val extra) g =
     (case generateExpression ns target 0 g of (tg, g1) \<Rightarrow>
      (case generateExpression ns val 0 g1 of (v, g2) \<Rightarrow>
       (let args = [tg, JSON_stringify property, v] in
        (case extra of
           Some ex \<Rightarrow>
             (case generateExpression ns ex 0 g2 of (x, g3) \<Rightarrow>
                emitLine (''sprout.set('' @ join '', '' (args @ [x]) @ '');'') g3)
         | None \<Rightarrow> emitLine (''sprout.set('' @ join '', '' args @ '');'') g2))))"
| "generateStatement ns (AddStatement target property val) g =
     (case generateExpression ns target 0 g of (tg, g1) \<Rightarrow>
      case generateExpression ns val 0 g1 of (v, g2) \<Rightarrow>
        emitLine (''sprout.add('' @ tg @ '', '' @ JSON_stringify property @ '', '' @ v @ '');'') g2)"
| "generateStatement ns (ToggleStatement target mode argument) g =
     (case generateExpression ns target 0 g of (tg, g1) \<Rightarrow>
      case (case argument of
              Some a \<Rightarrow> (case generateExpression ns a 0 g1 of (x, g2) \<Rightarrow> ('', '' @ x, g2))
            | None \<Rightarrow> ([], g1)) of (arg, g2) \<Rightarrow>
        emitLine (''sprout.toggle('' @ tg @ '', '' @ JSON_stringify mode @ arg @ '');'') g2)"
| "generateStatement ns (SendStatement url method payload chain) g =
     (case generateExpression ns url 0 g of (u, g1) \<Rightarrow>
       (let m = JSON_stringify (toUpperCase method) in
        (case generateExpression ns payload 0 g1 of (p, g2) \<Rightarrow>
           if length chain = 0 then
             emitLine (''sprout.send('' @ u @ '', '' @ m @ '', '' @ p @ '');'') g2
           else
             (let baseIndent = indentLevel g2;
                  chainIndent = baseIndent + 1;
                  g3 = emitRaw (indentString baseIndent @
                                ''sprout.send('' @ u @ '', '' @ m @ '', '' @ p @ '')'') g2;
                  g4 = generateThenClauses ns chainIndent chain g3;
                  g5 = emitRaw ('';'' @ [CHR 0x0A]) g4
              in g5\<lparr>indentLevel := baseIndent\<rparr>))))"
| "generateStatement ns (TemplateStatement name template) g =
     emitLine (''sprout.defineTemplate('' @ JSON_stringify name @ '', '' @
               JSON_stringify template @ '');'') g"
| "generateStatement ns (BindStatement src selector property) g =
     (case generateExpression ns src 0 g of (s, g1) \<Rightarrow>
      (case generateExpression ns selector 0 g1 of (sel, g2) \<Rightarrow>
       (let prop = escapeUnsafeChars (JSON_stringify property) in
        emitLine (''sprout.bind(() => '' @ s @ '', '' @ sel @ '', '' @ prop @ '');'') g2)))"
| "generateStatement ns (CallJsStatement functionName payload) g =
     (case generateExpression ns functionName 0 g of (f, g1) \<Rightarrow>
      case (case payload of
              Some p \<Rightarrow> (case generateExpression ns p 0 g1 of (x, g2) \<Rightarrow> ('', '' @ x, g2))
            | None \<Rightarrow> ([], g1)) of (pl, g2) \<Rightarrow>
        emitLine (''sprout.callJs('' @ f @ pl @ '');'') g2)"
| "generateStatement ns (IfStatement node) g = generateIf ns node False g"
| "generateStatement ns (ForStatement variable iterable body) g =
     (case generateExpression ns iterable 0 g of (it, g1) \<Rightarrow>
       (let g2 = emitLine (''for (const '' @ variable @ '' of sprout.iter('' @ it @ '')) {'') g1;
            g3 = emitCaptured (indentLevel g2 + 1) (\<lambda>h. generateBlock ns body h) g2
        in emitLine ''}'' g3))"
| "generateStatement ns (ExpressionStatement expression) g =
     (case generateExpression ns expression 0 g of (e, g1) \<Rightarrow> emitLine (e @ '';'') g1)"
| "generateThenClauses ns chainIndent [] g = g"
| "generateThenClauses ns chainIndent ((params, body) # rest) g =
     (let ps = join '', '' params in
      (case capture (chainIndent + 1) (\<lambda>h. generateBlock ns body h) g of (b, g1) \<Rightarrow>
        (let g2 = emitRaw ([CHR 0x0A] @ indentString chainIndent @ ''.then(('' @ ps @ '') => {'' @
                           [CHR 0x0A] @ b @ indentString chainIndent @ ''})'') g1;
             g3 = (if rest = [] then emitRaw [] g2 else g2)
         in generateThenClauses ns chainIndent rest g3)))"
| "generateIf ns (IfNode test consequent alternate) isElse g =
     (case generateExpression ns test 0 g of (tst, g1) \<Rightarrow>
       (let prefix = (if isElse then ''else '' else []);
            g2 = emitLine (prefix @ ''if ('' @ tst @ '') {'') g1;
            g3 = emitCaptured (indentLevel g2 + 1) (\<lambda>h. generateBlock ns consequent h) g2;
            g4 = emitLine ''}'' g3
        in (case alternate of
              None \<Rightarrow> g4
            | Some (ElseIf node) \<Rightarrow> generateIf ns node True g4
            | Some (ElseBlock blk) \<Rightarrow>
                (let g5 = emitLine ''else {'' g4;
                     g6 = emitCaptured (indentLevel g5 + 1) (\<lambda>h. generateBlock ns blk h) g5
                 in emitLine ''}'' g6))))"
| "generateBlock ns [] g = g"
| "generateBlock ns (statement # rest) g = generateBlock ns rest (generateStatement ns statement g)"

  by pat_completeness auto


termination
  by (relation "measure (\<lambda>x. case x of
        Inl (Inl (ns, e, p, g)) \<Rightarrow> size e
      | Inl (Inr (Inl (ns, es, g))) \<Rightarrow> size_list size es
      | Inl (Inr (Inr (ns, ents, g))) \<Rightarrow> size_list (size_prod (\<lambda>x. 0) size) ents
      | Inr (Inl (Inl (ns, s, g))) \<Rightarrow> size s
      | Inr (Inl (Inr (ns, ci, cl, g))) \<Rightarrow> size_list (size_prod (\<lambda>x. 0) (size_list size)) cl
      | Inr (Inr (Inl (ns, node, b, g))) \<Rightarrow> size node
      | Inr (Inr (Inr (ns, blk, g))) \<Rightarrow> size_list size blk)")
     simp_all


lemmas generate_induct =
  generateExpression_generateExpressions_generateEntries_generateStatement_generateThenClauses_generateIf_generateBlock.induct

lemma capture_frame: "snd (capture indent fn g) = g"
  by (simp add: capture_def Let_def)

lemma generateExpression_frame_all:
  "snd (generateExpression ns e p g) = g"
  "snd (generateExpressions ns1 es g1) = g1"
  "snd (generateEntries ns2 ents g2) = g2"
  "generateStatement ns3 s g3 = generateStatement ns3 s g3"
  "generateThenClauses ns4 ci cl g4 = generateThenClauses ns4 ci cl g4"
  "generateIf ns5 node b g5 = generateIf ns5 node b g5"
  "generateBlock ns6 blk g6 = generateBlock ns6 blk g6"
  apply (induction ns e p g and ns1 es g1 and ns2 ents g2 and ns3 s g3 and ns4 ci cl g4
         and ns5 node b g5 and ns6 blk g6 rule: generate_induct)
  apply (auto simp: capture_def Let_def split: prod.splits option.splits LambdaBody.splits)
  apply (metis snd_conv)+
  done

definition exprText :: "(jsnumber \<Rightarrow> string) \<Rightarrow> Expression \<Rightarrow> nat \<Rightarrow> CodeGenerator \<Rightarrow> string" where
  "exprText ns e p g = fst (generateExpression ns e p g)"

lemma generateExpression_eq: "generateExpression ns e p g = (exprText ns e p g, g)"
  using generateExpression_frame_all(1)[of ns e p g]
  by (simp add: exprText_def prod_eq_iff)

definition wrapIfLower :: "nat \<Rightarrow> nat \<Rightarrow> string \<Rightarrow> string" where
  "wrapIfLower precedence parentPrecedence result =
     (if precedence < parentPrecedence then ''('' @ result @ '')'' else result)"

lemma exprText_Binary_runtime:
  "exprText ns (BinaryExpression ''+'' l r) p g =
     ''sprout.ops.add('' @ exprText ns l 0 g @ '', '' @ exprText ns r 0 g @ '')''"
  "exprText ns (BinaryExpression ''-'' l r) p g =
     ''sprout.ops.subtract('' @ exprText ns l 0 g @ '', '' @ exprText ns r 0 g @ '')''"
  "exprText ns (BinaryExpression ''=='' l r) p g =
     ''sprout.ops.equals('' @ exprText ns l 0 g @ '', '' @ exprText ns r 0 g @ '')''"
  "exprText ns (BinaryExpression ''!='' l r) p g =
     ''sprout.ops.notEquals('' @ exprText ns l 0 g @ '', '' @ exprText ns r 0 g @ '')''"
  by (subst exprText_def, subst generateExpression.simps, simp add: generateExpression_eq)+

lemma exprText_Binary_native:
  "op \<noteq> ''+'' \<Longrightarrow> op \<noteq> ''-'' \<Longrightarrow> op \<noteq> ''=='' \<Longrightarrow> op \<noteq> ''!='' \<Longrightarrow>
   exprText ns (BinaryExpression op l r) p g =
     wrapIfLower (precedenceForOperator op) p
       (exprText ns l (precedenceForOperator op) g @ '' '' @ op @ '' '' @
        exprText ns r (precedenceForOperator op + 1) g)"
  by (subst exprText_def, subst generateExpression.simps,
      simp add: generateExpression_eq Let_def wrapIfLower_def)

lemma exprText_Logical:
  "exprText ns (LogicalExpression op l r) p g =
     wrapIfLower (if op = ''||'' then 1 else 2) p
       (exprText ns l (if op = ''||'' then 1 else 2) g @ '' '' @ op @ '' '' @
        exprText ns r ((if op = ''||'' then 1 else 2) + 1) g)"
  by (subst exprText_def, subst generateExpression.simps,
      simp add: generateExpression_eq Let_def wrapIfLower_def)

lemma exprText_Unary:
  "exprText ns (UnaryExpression ''-'' a) p g = ''sprout.ops.negate('' @ exprText ns a 0 g @ '')''"
  "exprText ns (UnaryExpression ''!'' a) p g = ''!('' @ exprText ns a 0 g @ '')''"
  by (subst exprText_def, subst generateExpression.simps, simp add: generateExpression_eq)+

lemma exprText_Identifier: "exprText ns (Identifier name) p g = name"
  by (simp add: exprText_def)


text \<open>
  \<open>tokenText\<close> is one value of the parameter \<open>numberText\<close>, used in the examples below
  only: it prints a numeral as its token was written. That is what \<open>String(Number(text))\<close>
  prints for a numeral already in the form JavaScript prints, such as \<open>0\<close>, \<open>7\<close> or
  \<open>1.5\<close>, and not for others (\<open>1.50\<close> is printed as \<open>1.5\<close>, \<open>007\<close> as \<open>7\<close>). The generated examples
  contain no numeral other than \<open>0\<close>; the general theorems hold for every \<open>numberText\<close>.
\<close>

definition tokenText :: "jsnumber \<Rightarrow> string" where
  "tokenText n = (case n of Number txt \<Rightarrow> txt)"

definition nativeOperatorNode :: "Expression \<Rightarrow> bool" where
  "nativeOperatorNode e =
     (case e of
        BinaryExpression op l r \<Rightarrow> op \<notin> set [''+'', ''-'', ''=='', ''!='']
      | LogicalExpression op l r \<Rightarrow> True
      | _ \<Rightarrow> False)"

definition nodePrecedence :: "Expression \<Rightarrow> nat" where
  "nodePrecedence e =
     (case e of
        BinaryExpression op l r \<Rightarrow> precedenceForOperator op
      | LogicalExpression op l r \<Rightarrow> (if op = ''||'' then 1 else 2)
      | _ \<Rightarrow> 0)"

definition blockText :: "(jsnumber \<Rightarrow> string) \<Rightarrow> nat \<Rightarrow> Statement list \<Rightarrow> string" where
  "blockText ns indent body =
     concat (output_buf (generateBlock ns body \<lparr>output_buf = [], indentLevel = indent\<rparr>))"

definition thenClauseText ::
  "(jsnumber \<Rightarrow> string) \<Rightarrow> nat \<Rightarrow> string list \<times> Statement list \<Rightarrow> string" where
  "thenClauseText ns chainIndent clause =
     [CHR 0x0A] @ indentString chainIndent @ ''.then(('' @ join '', '' (fst clause) @ '') => {'' @
     [CHR 0x0A] @ blockText ns (chainIndent + 1) (snd clause) @ indentString chainIndent @ ''})''"

lemma capture_eq:
  "capture indent fn g =
     (concat (output_buf (fn \<lparr>output_buf = [], indentLevel = indent\<rparr>)), g)"
  by (cases g) (simp add: capture_def Let_def)

lemma emitCaptured_eq:
  "emitCaptured indent fn g =
     g\<lparr>output_buf := output_buf g @
          [concat (output_buf (fn \<lparr>output_buf = [], indentLevel = indent\<rparr>))]\<rparr>"
  by (simp add: emitCaptured_def capture_eq emitRaw_def)

lemma exprText_precedence:
  "exprText ns e required g =
     (if nativeOperatorNode e \<and> nodePrecedence e < required
      then ''('' @ exprText ns e 0 g @ '')'' else exprText ns e 0 g)"
proof (cases e)
  case (BinaryExpression op l r)
  show ?thesis
  proof (cases "op \<in> set [''+'', ''-'', ''=='', ''!='']")
    case True
    then show ?thesis
      unfolding BinaryExpression
      by (auto simp: exprText_Binary_runtime nativeOperatorNode_def)
  next
    case False
    then have "op \<noteq> ''+''" "op \<noteq> ''-''" "op \<noteq> ''==''" "op \<noteq> ''!=''" by auto
    from exprText_Binary_native[OF this] False show ?thesis
      unfolding BinaryExpression
      by (simp add: nativeOperatorNode_def nodePrecedence_def wrapIfLower_def)
  qed
next
  case (LogicalExpression op l r)
  show ?thesis
    unfolding LogicalExpression
    by (simp add: exprText_Logical nativeOperatorNode_def nodePrecedence_def wrapIfLower_def)
qed (simp_all add: nativeOperatorNode_def exprText_def split: prod.splits)

lemma generateThenClauses_out:
  "\<exists>chunks. output_buf (generateThenClauses ns ci cl g) = output_buf g @ chunks \<and>
            concat chunks = concat (map (thenClauseText ns ci) cl) \<and>
            indentLevel (generateThenClauses ns ci cl g) = indentLevel g"
proof (induction cl arbitrary: g)
  case Nil
  show ?case by simp
next
  case (Cons clause rest)
  obtain params body where c: "clause = (params, body)" by (cases clause)
  let ?txt = "thenClauseText ns ci clause"
  let ?g2 = "emitRaw ?txt g"
  let ?g3 = "if rest = [] then emitRaw [] ?g2 else ?g2"
  have step: "generateThenClauses ns ci (clause # rest) g = generateThenClauses ns ci rest ?g3"
    unfolding c
    by (simp add: capture_eq Let_def thenClauseText_def blockText_def)
  from Cons.IH[of ?g3] obtain chunks where
    ch: "output_buf (generateThenClauses ns ci rest ?g3) = output_buf ?g3 @ chunks"
        "concat chunks = concat (map (thenClauseText ns ci) rest)"
        "indentLevel (generateThenClauses ns ci rest ?g3) = indentLevel ?g3"
    by blast
  show ?case
  proof (cases "rest = []")
    case True
    with ch step show ?thesis
      by (intro exI[of _ "[?txt, []] @ chunks"]) (simp add: emitRaw_def)
  next
    case False
    with ch step show ?thesis
      by (intro exI[of _ "[?txt] @ chunks"]) (simp add: emitRaw_def)
  qed
qed

definition sendText ::
  "(jsnumber \<Rightarrow> string) \<Rightarrow> Expression \<Rightarrow> string \<Rightarrow> Expression \<Rightarrow>
     (string list \<times> Statement list) list \<Rightarrow> CodeGenerator \<Rightarrow> string" where
  "sendText ns url method payload chain g =
     indentString (indentLevel g) @
     ''sprout.send('' @ exprText ns url 0 g @ '', '' @ JSON_stringify (toUpperCase method) @
     '', '' @ exprText ns payload 0 g @ '')'' @
     concat (map (thenClauseText ns (indentLevel g + 1)) chain) @ '';'' @ [CHR 0x0A]"


subsection \<open>Properties of the code generator\<close>

text \<open>
  C10. \<open>capture\<close> is frame-preserving: for every indent level and every render action
  \<open>fn\<close>, it returns the text \<open>fn\<close> emitted into the fresh buffer together with the
  generator exactly as it was before the call (same buffer, same indentation level);
  \<open>emitCaptured\<close> therefore only appends that text to the parent buffer, whose earlier
  chunks are unchanged.
\<close>

theorem capture_frame_preserving:
  "capture indent fn g =
     (concat (output_buf (fn (g\<lparr>output_buf := [], indentLevel := indent\<rparr>))), g) \<and>
   emitCaptured indent fn g =
     g\<lparr>output_buf := output_buf g @
          [concat (output_buf (fn (g\<lparr>output_buf := [], indentLevel := indent\<rparr>)))]\<rparr>"
  by (cases g) (simp add: capture_def emitCaptured_def emitRaw_def Let_def)

text \<open>
  C3. A binary expression with operator \<open>+\<close>, \<open>-\<close>, \<open>==\<close> or \<open>!=\<close> is emitted as a call
  of \<open>sprout.ops.add\<close>, \<open>subtract\<close>, \<open>equals\<close>, \<open>notEquals\<close> on the generated operands,
  whatever the parent precedence; unary \<open>-\<close> is emitted as a call of
  \<open>sprout.ops.negate\<close> and unary \<open>!\<close> as native negation of the parenthesised operand.
\<close>

theorem operator_lowering:
  "generateExpression ns (BinaryExpression ''+'' l r) p g =
     (''sprout.ops.add('' @ exprText ns l 0 g @ '', '' @ exprText ns r 0 g @ '')'', g) \<and>
   generateExpression ns (BinaryExpression ''-'' l r) p g =
     (''sprout.ops.subtract('' @ exprText ns l 0 g @ '', '' @ exprText ns r 0 g @ '')'', g) \<and>
   generateExpression ns (BinaryExpression ''=='' l r) p g =
     (''sprout.ops.equals('' @ exprText ns l 0 g @ '', '' @ exprText ns r 0 g @ '')'', g) \<and>
   generateExpression ns (BinaryExpression ''!='' l r) p g =
     (''sprout.ops.notEquals('' @ exprText ns l 0 g @ '', '' @ exprText ns r 0 g @ '')'', g) \<and>
   generateExpression ns (UnaryExpression ''-'' a) p g =
     (''sprout.ops.negate('' @ exprText ns a 0 g @ '')'', g) \<and>
   generateExpression ns (UnaryExpression ''!'' a) p g =
     (''!('' @ exprText ns a 0 g @ '')'', g)"
  by (simp only: generateExpression_eq exprText_Binary_runtime exprText_Unary simp_thms)

text \<open>
  C4, as stated, fails: under \<open>*\<close> (required precedence 6) the operand \<open>a + b\<close> has the
  lower operator precedence 5 and is not wrapped in parentheses, because \<open>+\<close> is emitted
  as a runtime call.
\<close>

theorem parenthesization_counterexample:
  "precedenceForOperator ''+'' < precedenceForOperator ''*'' \<and>
   exprText tokenText
     (BinaryExpression ''*''
        (BinaryExpression ''+'' (Identifier ''a'') (Identifier ''b''))
        (Identifier ''c''))
     0 \<lparr>output_buf = [], indentLevel = 0\<rparr> = ''sprout.ops.add(a, b) * c''"
  by (simp add: exprText_Binary_native exprText_Binary_runtime exprText_Identifier
        precedenceForOperator_def wrapIfLower_def)

text \<open>
  C4, amended. An expression generated under a required precedence is wrapped in
  parentheses exactly when it is a natively emitted operator node (a binary expression
  with an operator other than \<open>+ - == !=\<close>, or a logical expression) whose precedence is
  lower than the required one; every other node is emitted as under precedence 0. A native
  binary or logical node requires its own precedence of its left operand and one more of
  its right operand.
\<close>

theorem minimal_parenthesization:
  "exprText ns e required g =
     (if nativeOperatorNode e \<and> nodePrecedence e < required
      then ''('' @ exprText ns e 0 g @ '')'' else exprText ns e 0 g) \<and>
   (nativeOperatorNode (BinaryExpression op l r) \<longrightarrow>
      exprText ns (BinaryExpression op l r) 0 g =
        exprText ns l (precedenceForOperator op) g @ '' '' @ op @ '' '' @
        exprText ns r (precedenceForOperator op + 1) g) \<and>
   exprText ns (LogicalExpression op l r) 0 g =
     exprText ns l (if op = ''||'' then 1 else 2) g @ '' '' @ op @ '' '' @
     exprText ns r ((if op = ''||'' then 1 else 2) + 1) g"
proof (intro conjI impI)
  show "exprText ns e required g =
     (if nativeOperatorNode e \<and> nodePrecedence e < required
      then ''('' @ exprText ns e 0 g @ '')'' else exprText ns e 0 g)"
    by (rule exprText_precedence)
next
  assume "nativeOperatorNode (BinaryExpression op l r)"
  then have "op \<noteq> ''+''" "op \<noteq> ''-''" "op \<noteq> ''==''" "op \<noteq> ''!=''"
    by (auto simp: nativeOperatorNode_def)
  from exprText_Binary_native[OF this, of ns l r 0 g]
  show "exprText ns (BinaryExpression op l r) 0 g =
        exprText ns l (precedenceForOperator op) g @ '' '' @ op @ '' '' @
        exprText ns r (precedenceForOperator op + 1) g"
    by (simp add: wrapIfLower_def)
next
  show "exprText ns (LogicalExpression op l r) 0 g =
     exprText ns l (if op = ''||'' then 1 else 2) g @ '' '' @ op @ '' '' @
     exprText ns r ((if op = ''||'' then 1 else 2) + 1) g"
    by (simp add: exprText_Logical wrapIfLower_def)
qed

theorem minimal_parenthesization_witness:
  "nativeOperatorNode (BinaryExpression ''>'' (Identifier ''a'') (Identifier ''b'')) \<and>
   exprText tokenText
     (BinaryExpression ''>''
        (BinaryExpression ''*'' (Identifier ''a'') (Identifier ''b'')) (Identifier ''c''))
     0 \<lparr>output_buf = [], indentLevel = 0\<rparr> = ''a * b > c'' \<and>
   exprText tokenText
     (BinaryExpression ''*''
        (BinaryExpression ''>'' (Identifier ''a'') (Identifier ''b'')) (Identifier ''c''))
     0 \<lparr>output_buf = [], indentLevel = 0\<rparr> = ''(a > b) * c''"
proof -
  let ?g = "\<lparr>output_buf = [], indentLevel = 0\<rparr>"
  let ?a = "Identifier ''a''" and ?b = "Identifier ''b''" and ?c = "Identifier ''c''"
  have n1: "nativeOperatorNode (BinaryExpression ''>'' ?a ?b)"
    and n2: "nativeOperatorNode (BinaryExpression ''*'' ?a ?b)"
    and n3: "nativeOperatorNode (BinaryExpression ''>'' (BinaryExpression ''*'' ?a ?b) ?c)"
    and n4: "nativeOperatorNode (BinaryExpression ''*'' (BinaryExpression ''>'' ?a ?b) ?c)"
    by (simp_all add: nativeOperatorNode_def)
  note m = minimal_parenthesization[of tokenText _ _ ?g]
  have gt0: "exprText tokenText (BinaryExpression ''>'' ?a ?b) 0 ?g = ''a > b''"
    using m[THEN conjunct2, THEN conjunct1, rule_format, OF n1]
    by (simp add: exprText_Identifier)
  have mul0: "exprText tokenText (BinaryExpression ''*'' ?a ?b) 0 ?g = ''a * b''"
    using m[THEN conjunct2, THEN conjunct1, rule_format, OF n2]
    by (simp add: exprText_Identifier)
  have mul4: "exprText tokenText (BinaryExpression ''*'' ?a ?b) 4 ?g = ''a * b''"
    using m[of "BinaryExpression ''*'' ?a ?b" 4, THEN conjunct1] n2 mul0
    by (simp add: nodePrecedence_def precedenceForOperator_def)
  have gt6: "exprText tokenText (BinaryExpression ''>'' ?a ?b) 6 ?g = ''(a > b)''"
    using m[of "BinaryExpression ''>'' ?a ?b" 6, THEN conjunct1] n1 gt0
    by (simp add: nodePrecedence_def precedenceForOperator_def)
  have r1: "exprText tokenText (BinaryExpression ''>'' (BinaryExpression ''*'' ?a ?b) ?c) 0 ?g
              = ''a * b > c''"
    using m[THEN conjunct2, THEN conjunct1, rule_format, OF n3] mul4
    by (simp add: exprText_Identifier precedenceForOperator_def)
  have r2: "exprText tokenText (BinaryExpression ''*'' (BinaryExpression ''>'' ?a ?b) ?c) 0 ?g
              = ''(a > b) * c''"
    using m[THEN conjunct2, THEN conjunct1, rule_format, OF n4] gt6
    by (simp add: exprText_Identifier precedenceForOperator_def)
  from n1 r1 r2 show ?thesis by simp
qed

text \<open>
  C5. A \<open>send\<close> statement appends to the buffer the text \<open>sendText\<close>: the call
  \<open>sprout.send(url, method, payload)\<close> with the method upper-cased and JSON-quoted, then
  one \<open>.then((params) => { body })\<close> per clause in order, then a single \<open>;\<close> and a
  newline. Earlier chunks of the buffer and the indentation level are unchanged, and with
  no clause the text is appended as one line.
\<close>

theorem send_lowering:
  "concat (output_buf (generateStatement ns (SendStatement url method payload chain) g)) =
     concat (output_buf g) @ sendText ns url method payload chain g \<and>
   take (length (output_buf g))
     (output_buf (generateStatement ns (SendStatement url method payload chain) g)) =
     output_buf g \<and>
   (chain = [] \<longrightarrow>
      output_buf (generateStatement ns (SendStatement url method payload chain) g) =
        output_buf g @ [sendText ns url method payload chain g]) \<and>
   indentLevel (generateStatement ns (SendStatement url method payload chain) g) =
     indentLevel g"
proof (cases "chain = []")
  case True
  then show ?thesis
    by (simp add: generateExpression_eq Let_def emitLine_def sendText_def)
next
  case False
  let ?head = "indentString (indentLevel g) @
       ''sprout.send('' @ exprText ns url 0 g @ '', '' @ JSON_stringify (toUpperCase method) @
       '', '' @ exprText ns payload 0 g @ '')''"
  let ?g3 = "emitRaw ?head g"
  let ?g4 = "generateThenClauses ns (indentLevel g + 1) chain ?g3"
  from generateThenClauses_out[of ns "indentLevel g + 1" chain ?g3] obtain chunks where
    ch: "output_buf ?g4 = output_buf ?g3 @ chunks"
        "concat chunks = concat (map (thenClauseText ns (indentLevel g + 1)) chain)"
        "indentLevel ?g4 = indentLevel ?g3"
    by blast
  have res: "generateStatement ns (SendStatement url method payload chain) g =
          (emitRaw ('';'' @ [CHR 0x0A]) ?g4)\<lparr>indentLevel := indentLevel g\<rparr>"
    using False by (simp add: generateExpression_eq Let_def)
  show ?thesis
    unfolding res using ch False
    by (simp add: emitRaw_def sendText_def)
qed

theorem send_lowering_witness:
  \<open>output_buf (generateStatement tokenText
       (SendStatement (Identifier ''u'') ''post'' (Identifier ''d'') [])
       \<lparr>output_buf = [], indentLevel = 0\<rparr>) =
     [''sprout.send(u, "POST", d);'' @ [CHR 0x0A]] \<and>
   concat (output_buf (generateStatement tokenText
       (SendStatement (Identifier ''u'') ''post'' (Identifier ''d'')
          [([''res''], [ExpressionStatement (Identifier ''res'')])])
       \<lparr>output_buf = [], indentLevel = 0\<rparr>)) =
     ''sprout.send(u, "POST", d)'' @ [CHR 0x0A] @
     ''  .then((res) => {'' @ [CHR 0x0A] @
     ''    res;'' @ [CHR 0x0A] @
     ''  });'' @ [CHR 0x0A]\<close>
proof -
  let ?g = "\<lparr>output_buf = [], indentLevel = 0\<rparr>"
  let ?u = "Identifier ''u''" and ?d = "Identifier ''d''"
  let ?chain = "[([''res''], [ExpressionStatement (Identifier ''res'')])]"
  have m: \<open>JSON_stringify (toUpperCase ''post'') = ''"POST"''\<close>
    by (simp add: JSON_stringify_def toUpperCase_def quoteChar_def)
  have t1: \<open>sendText tokenText ?u ''post'' ?d [] ?g = ''sprout.send(u, "POST", d);'' @ [CHR 0x0A]\<close>
    by (simp add: sendText_def exprText_Identifier indentString_def m)
  have blk: "blockText tokenText 2 [ExpressionStatement (Identifier ''res'')] =
               ''    res;'' @ [CHR 0x0A]"
    by (simp add: blockText_def emitLine_def indentString_def numeral_2_eq_2)
  have t2: \<open>sendText tokenText ?u ''post'' ?d ?chain ?g =
     ''sprout.send(u, "POST", d)'' @ [CHR 0x0A] @
     ''  .then((res) => {'' @ [CHR 0x0A] @
     ''    res;'' @ [CHR 0x0A] @
     ''  });'' @ [CHR 0x0A]\<close>
    using blk
    by (simp add: sendText_def exprText_Identifier indentString_def m thenClauseText_def
          numeral_2_eq_2)
  have e1: "output_buf (generateStatement tokenText (SendStatement ?u ''post'' ?d []) ?g) =
              output_buf ?g @ [sendText tokenText ?u ''post'' ?d [] ?g]"
    using send_lowering[of tokenText ?u "''post''" ?d "[]" ?g] by blast
  have e2: "concat (output_buf (generateStatement tokenText
                (SendStatement ?u ''post'' ?d ?chain) ?g)) =
              concat (output_buf ?g) @ sendText tokenText ?u ''post'' ?d ?chain ?g"
    using send_lowering[of tokenText ?u "''post''" ?d ?chain ?g] by blast
  show ?thesis
    unfolding e1 e2 t1 t2 by simp
qed

section \<open>Parser\<close>

text \<open>
  The class \<open>Parser\<close> holds the token array produced by the tokenizer and a cursor
  \<open>position\<close>. A method that returns a value and may throw is a function from the parser
  to an error or the value with the parser moved on. The methods \<open>peek\<close> and \<open>error\<close> of
  the parser are called \<open>peekP\<close> and \<open>errorP\<close> (the tokenizer has its own \<open>peek\<close>);
  \<open>error_at\<close> is \<open>error\<close> called with a token. \<open>forward\<close> is \<open>this.position += 1\<close>.
  The token array is never empty: it ends with the \<open>eof\<close> token.
\<close>

record Parser =
  tokens :: "Token list"
  position :: nat

definition error_at :: "string \<Rightarrow> Token \<Rightarrow> compile_error" where
  "error_at message token = SyntaxError message (tline token) (tcolumn token)"

definition peekP :: "Parser \<Rightarrow> compile_error + Token" where
  "peekP p =
     (if position p < length (tokens p) then Inr (tokens p ! position p)
      else Inl (error_at ''Unexpected end of input'' (last (tokens p))))"

definition errorP :: "string \<Rightarrow> Parser \<Rightarrow> compile_error" where
  "errorP message p = (case peekP p of Inl e \<Rightarrow> e | Inr token \<Rightarrow> error_at message token)"

definition typeName :: "TokenType \<Rightarrow> string" where
  "typeName ty =
     (case ty of
        TT_Identifier \<Rightarrow> ''identifier'' | TT_Number \<Rightarrow> ''number'' | TT_String \<Rightarrow> ''string''
      | TT_Operator \<Rightarrow> ''operator'' | TT_Punctuation \<Rightarrow> ''punctuation''
      | TT_Newline \<Rightarrow> ''newline'' | TT_EOF \<Rightarrow> ''eof'')"

definition quoted :: "string \<Rightarrow> string" where
  "quoted s = [CHR 0x27] @ s @ [CHR 0x27]"

definition forward :: "Parser \<Rightarrow> Parser" where
  "forward p = p\<lparr>position := position p + 1\<rparr>"

definition peekIdentifier :: "string \<Rightarrow> Parser \<Rightarrow> compile_error + bool" where
  "peekIdentifier v p =
     (case peekP p of Inl e \<Rightarrow> Inl e
      | Inr token \<Rightarrow> Inr (ttype token = TT_Identifier \<and> tvalue token = v))"

definition peekOperator :: "string \<Rightarrow> Parser \<Rightarrow> compile_error + bool" where
  "peekOperator v p =
     (case peekP p of Inl e \<Rightarrow> Inl e
      | Inr token \<Rightarrow> Inr (ttype token = TT_Operator \<and> tvalue token = v))"

definition peekPunctuation :: "string \<Rightarrow> Parser \<Rightarrow> compile_error + bool" where
  "peekPunctuation v p =
     (case peekP p of Inl e \<Rightarrow> Inl e
      | Inr token \<Rightarrow> Inr (ttype token = TT_Punctuation \<and> tvalue token = v))"

definition is_type :: "TokenType \<Rightarrow> Parser \<Rightarrow> compile_error + bool" where
  "is_type ty p = (case peekP p of Inl e \<Rightarrow> Inl e | Inr token \<Rightarrow> Inr (ttype token = ty))"

definition consumeIdentifierToken :: "Parser \<Rightarrow> compile_error + Token \<times> Parser" where
  "consumeIdentifierToken p =
     (case peekP p of Inl e \<Rightarrow> Inl e
      | Inr token \<Rightarrow>
          if ttype token \<noteq> TT_Identifier then Inl (error_at ''Expected identifier'' token)
          else Inr (token, forward p))"

definition consumeIdentifier :: "string \<Rightarrow> Parser \<Rightarrow> compile_error + Parser" where
  "consumeIdentifier v p =
     (case consumeIdentifierToken p of Inl e \<Rightarrow> Inl e
      | Inr (token, p1) \<Rightarrow>
          if tvalue token \<noteq> v then Inl (error_at (''Expected '' @ quoted v) token)
          else Inr p1)"

definition consumeIdentifierValue :: "Parser \<Rightarrow> compile_error + string \<times> Parser" where
  "consumeIdentifierValue p =
     (case consumeIdentifierToken p of Inl e \<Rightarrow> Inl e
      | Inr (token, p1) \<Rightarrow> Inr (tvalue token, p1))"

definition consumeOperator :: "string \<Rightarrow> Parser \<Rightarrow> compile_error + Parser" where
  "consumeOperator v p =
     (case peekP p of Inl e \<Rightarrow> Inl e
      | Inr token \<Rightarrow>
          if ttype token \<noteq> TT_Operator \<or> tvalue token \<noteq> v
          then Inl (error_at (''Expected operator '' @ quoted v) token)
          else Inr (forward p))"

definition consumeType :: "TokenType \<Rightarrow> Parser \<Rightarrow> compile_error + Token \<times> Parser" where
  "consumeType ty p =
     (case peekP p of Inl e \<Rightarrow> Inl e
      | Inr token \<Rightarrow>
          if ttype token \<noteq> ty then Inl (error_at (''Expected '' @ typeName ty) token)
          else Inr (token, forward p))"

definition consumePunctuation :: "string \<Rightarrow> Parser \<Rightarrow> compile_error + Parser" where
  "consumePunctuation v p =
     (case peekP p of Inl e \<Rightarrow> Inl e
      | Inr token \<Rightarrow>
          if ttype token \<noteq> TT_Punctuation \<or> tvalue token \<noteq> v
          then Inl (error_at (''Expected '' @ quoted v) token)
          else Inr (forward p))"

definition consumeIfPunctuation :: "string \<Rightarrow> Parser \<Rightarrow> compile_error + bool \<times> Parser" where
  "consumeIfPunctuation v p =
     (case peekP p of Inl e \<Rightarrow> Inl e
      | Inr token \<Rightarrow>
          if ttype token = TT_Punctuation \<and> tvalue token = v then Inr (True, forward p)
          else Inr (False, p))"

function skipNewlines :: "Parser \<Rightarrow> compile_error + Parser" where
  "skipNewlines p =
     (case peekP p of Inl e \<Rightarrow> Inl e
      | Inr token \<Rightarrow> if ttype token = TT_Newline then skipNewlines (forward p) else Inr p)"
  by pat_completeness auto
termination
  by (relation "measure (\<lambda>p. length (tokens p) - position p)")
     (auto simp: peekP_def forward_def split: if_splits)

declare skipNewlines.simps [simp del]

text \<open>
  The scan of \<open>looksLikeAssignment\<close>: \<open>i\<close> is its local \<open>index\<close>. A closing bracket at depth
  0 ends the scan before the test for \<open>=\<close>.
\<close>

definition isOpening :: "Token \<Rightarrow> bool" where
  "isOpening token =
     (ttype token = TT_Punctuation \<and>
      (tvalue token = ''('' \<or> tvalue token = ''['' \<or> tvalue token = ''{''))"

definition isClosing :: "Token \<Rightarrow> bool" where
  "isClosing token =
     (ttype token = TT_Punctuation \<and>
      (tvalue token = '')'' \<or> tvalue token = '']'' \<or> tvalue token = ''}''))"

function looksLikeAssignment_loop :: "Token list \<Rightarrow> nat \<Rightarrow> nat \<Rightarrow> bool" where
  "looksLikeAssignment_loop ts depth i =
     (if i < length ts then
        (let token = ts ! i in
         if ttype token = TT_Newline then False
         else if isClosing token \<and> depth = 0 then False
         else
           (let depth' = (if isOpening token then depth + 1
                          else if isClosing token then depth - 1
                          else depth)
            in if depth' = 0 \<and> ttype token = TT_Operator \<and> tvalue token = ''='' then True
               else if ttype token = TT_EOF then False
               else looksLikeAssignment_loop ts depth' (i + 1)))
      else False)"
  by pat_completeness auto
termination
  by (relation "measure (\<lambda>(ts, depth, i). length ts - i)") auto

declare looksLikeAssignment_loop.simps [simp del]

definition looksLikeAssignment :: "Parser \<Rightarrow> bool" where
  "looksLikeAssignment p = looksLikeAssignment_loop (tokens p) 0 (position p)"

text \<open>\<open>value.slice(1, -1)\<close>: the string without its first and last character.\<close>

definition slice_1_m1 :: "string \<Rightarrow> string" where
  "slice_1_m1 s = butlast (tl s)"

text \<open>
  The parser is recursive descent. Recursion goes through \<open>parseExpression\<close> and
  \<open>parseStatement\<close>; in the model every other method takes them as the parameters \<open>pe\<close>
  and \<open>ps\<close> (and \<open>pb\<close> for \<open>parseBlock\<close>), and the two are tied together below by
  recursion on a fuel counter \<open>n\<close>, which also bounds every loop. Running out of fuel is
  the error \<open>FuelExhausted\<close>, which the program itself never raises.

  A disjunction of \<open>peekOperator\<close> calls is \<open>peekOperatorIn\<close>: all of them look at the same
  token and throw in the same case.
\<close>

definition peekOperatorIn :: "string list \<Rightarrow> Parser \<Rightarrow> compile_error + bool" where
  "peekOperatorIn vs p =
     (case peekP p of Inl e \<Rightarrow> Inl e
      | Inr token \<Rightarrow> Inr (ttype token = TT_Operator \<and> tvalue token \<in> set vs))"

text \<open>
  \<open>do { xs.push(parseExpression()) } while (consumeIfPunctuation(','))\<close>, the loop of
  \<open>parseList\<close> and of the argument list in \<open>parseCallMemberExpression\<close>.
\<close>

fun parseCommaSeparated ::
  "nat \<Rightarrow> (Parser \<Rightarrow> compile_error + Expression \<times> Parser) \<Rightarrow> Expression list \<Rightarrow> Parser \<Rightarrow>
     compile_error + Expression list \<times> Parser" where
  "parseCommaSeparated 0 pe xs p = Inl FuelExhausted"
| "parseCommaSeparated (Suc k) pe xs p =
     (case pe p of Inl e \<Rightarrow> Inl e
      | Inr (x, p1) \<Rightarrow>
          (case consumeIfPunctuation '','' p1 of Inl e \<Rightarrow> Inl e
           | Inr (again, p2) \<Rightarrow>
               if again then parseCommaSeparated k pe (xs @ [x]) p2
               else Inr (xs @ [x], p2)))"

definition parseList ::
  "nat \<Rightarrow> (Parser \<Rightarrow> compile_error + Expression \<times> Parser) \<Rightarrow> Parser \<Rightarrow>
     compile_error + Expression \<times> Parser" where
  "parseList n pe p =
     (case consumePunctuation ''['' p of Inl e \<Rightarrow> Inl e
      | Inr p1 \<Rightarrow>
          (case peekPunctuation '']'' p1 of Inl e \<Rightarrow> Inl e
           | Inr closed \<Rightarrow>
               (case (if \<not> closed then parseCommaSeparated n pe [] p1 else Inr ([], p1)) of
                  Inl e \<Rightarrow> Inl e
                | Inr (elements, p2) \<Rightarrow>
                    (case consumePunctuation '']'' p2 of Inl e \<Rightarrow> Inl e
                     | Inr p3 \<Rightarrow> Inr (ListExpression elements, p3)))))"

fun parseMap_loop ::
  "nat \<Rightarrow> (Parser \<Rightarrow> compile_error + Expression \<times> Parser) \<Rightarrow> (string \<times> Expression) list \<Rightarrow>
     Parser \<Rightarrow> compile_error + (string \<times> Expression) list \<times> Parser" where
  "parseMap_loop 0 pe entries p = Inl FuelExhausted"
| "parseMap_loop (Suc k) pe entries p =
     (case peekP p of Inl e \<Rightarrow> Inl e
      | Inr keyToken \<Rightarrow>
          (case (if ttype keyToken = TT_Identifier then Inr (tvalue keyToken, forward p)
                 else if ttype keyToken = TT_String
                 then Inr (slice_1_m1 (tvalue keyToken), forward p)
                 else Inl (error_at ''Expected map key'' keyToken)) of
             Inl e \<Rightarrow> Inl e
           | Inr (key, p1) \<Rightarrow>
               (case consumePunctuation '':'' p1 of Inl e \<Rightarrow> Inl e
                | Inr p2 \<Rightarrow>
                    (case pe p2 of Inl e \<Rightarrow> Inl e
                     | Inr (v, p3) \<Rightarrow>
                         (case consumeIfPunctuation '','' p3 of Inl e \<Rightarrow> Inl e
                          | Inr (again, p4) \<Rightarrow>
                              if again then parseMap_loop k pe (entries @ [(key, v)]) p4
                              else Inr (entries @ [(key, v)], p4))))))"

definition parseMap ::
  "nat \<Rightarrow> (Parser \<Rightarrow> compile_error + Expression \<times> Parser) \<Rightarrow> Parser \<Rightarrow>
     compile_error + Expression \<times> Parser" where
  "parseMap n pe p =
     (case consumePunctuation ''{'' p of Inl e \<Rightarrow> Inl e
      | Inr p1 \<Rightarrow>
          (case peekPunctuation ''}'' p1 of Inl e \<Rightarrow> Inl e
           | Inr closed \<Rightarrow>
               (case (if \<not> closed then parseMap_loop n pe [] p1 else Inr ([], p1)) of
                  Inl e \<Rightarrow> Inl e
                | Inr (entries, p2) \<Rightarrow>
                    (case consumePunctuation ''}'' p2 of Inl e \<Rightarrow> Inl e
                     | Inr p3 \<Rightarrow> Inr (MapExpression entries, p3)))))"

definition parseRender ::
  "(Parser \<Rightarrow> compile_error + Expression \<times> Parser) \<Rightarrow> Parser \<Rightarrow>
     compile_error + Expression \<times> Parser" where
  "parseRender pe p =
     (case consumeIdentifier ''render'' p of Inl e \<Rightarrow> Inl e
      | Inr p1 \<Rightarrow>
          (case peekP p1 of Inl e \<Rightarrow> Inl e
           | Inr nameToken \<Rightarrow>
               (case (if ttype nameToken = TT_Identifier then Inr (tvalue nameToken, forward p1)
                      else if ttype nameToken = TT_String
                      then Inr (slice_1_m1 (tvalue nameToken), forward p1)
                      else Inl (error_at ''Expected template name'' nameToken)) of
                  Inl e \<Rightarrow> Inl e
                | Inr (name, p2) \<Rightarrow>
                    (case consumeIdentifier ''with'' p2 of Inl e \<Rightarrow> Inl e
                     | Inr p3 \<Rightarrow>
                         (case pe p3 of Inl e \<Rightarrow> Inl e
                          | Inr (v, p4) \<Rightarrow> Inr (RenderExpression name v, p4))))))"

definition parseGet ::
  "(Parser \<Rightarrow> compile_error + Expression \<times> Parser) \<Rightarrow> Parser \<Rightarrow>
     compile_error + Expression \<times> Parser" where
  "parseGet pe p =
     (case consumeIdentifier ''get'' p of Inl e \<Rightarrow> Inl e
      | Inr p1 \<Rightarrow>
          (case pe p1 of Inl e \<Rightarrow> Inl e
           | Inr (target, p2) \<Rightarrow>
               (case consumeIdentifierToken p2 of Inl e \<Rightarrow> Inl e
                | Inr (propertyToken, p3) \<Rightarrow>
                    (let property = tvalue propertyToken in
                     if property = ''attr'' \<or> property = ''css'' \<or> property = ''data'' then
                       (case pe p3 of Inl e \<Rightarrow> Inl e
                        | Inr (extra, p4) \<Rightarrow> Inr (GetExpression target property (Some extra), p4))
                     else Inr (GetExpression target property None, p3)))))"

definition parsePrimaryExpression ::
  "nat \<Rightarrow> (Parser \<Rightarrow> compile_error + Expression \<times> Parser) \<Rightarrow> Parser \<Rightarrow>
     compile_error + Expression \<times> Parser" where
  "parsePrimaryExpression n pe p =
     (case peekP p of Inl e \<Rightarrow> Inl e
      | Inr token \<Rightarrow>
          if ttype token = TT_Identifier then
            (if tvalue token = ''true'' then Inr (Literal (BoolValue True), forward p)
             else if tvalue token = ''false'' then Inr (Literal (BoolValue False), forward p)
             else if tvalue token = ''render'' then parseRender pe p
             else if tvalue token = ''get'' then parseGet pe p
             else Inr (Identifier (tvalue token), forward p))
          else if ttype token = TT_Number then
            Inr (Literal (NumberValue (Number (tvalue token))), forward p)
          else if ttype token = TT_String then
            Inr (Literal (TextValue (slice_1_m1 (tvalue token))), forward p)
          else
            (case peekPunctuation ''('' p of Inl e \<Rightarrow> Inl e
             | Inr paren \<Rightarrow>
                 if paren then
                   (case consumePunctuation ''('' p of Inl e \<Rightarrow> Inl e
                    | Inr p1 \<Rightarrow>
                        (case pe p1 of Inl e \<Rightarrow> Inl e
                         | Inr (expression, p2) \<Rightarrow>
                             (case consumePunctuation '')'' p2 of Inl e \<Rightarrow> Inl e
                              | Inr p3 \<Rightarrow> Inr (Group expression, p3))))
                 else
                   (case peekPunctuation ''['' p of Inl e \<Rightarrow> Inl e
                    | Inr bracket \<Rightarrow>
                        if bracket then parseList n pe p
                        else
                          (case peekPunctuation ''{'' p of Inl e \<Rightarrow> Inl e
                           | Inr brace \<Rightarrow>
                               if brace then parseMap n pe p
                               else Inl (error_at ''Unexpected token in expression'' token)))))"

text \<open>The \<open>while (true)\<close> loop of \<open>parseCallMemberExpression\<close>; \<open>k\<close> bounds its rounds.\<close>

fun parseCallMember_loop ::
  "nat \<Rightarrow> nat \<Rightarrow> (Parser \<Rightarrow> compile_error + Expression \<times> Parser) \<Rightarrow> Expression \<Rightarrow> Parser \<Rightarrow>
     compile_error + Expression \<times> Parser" where
  "parseCallMember_loop 0 n pe expression p = Inl FuelExhausted"
| "parseCallMember_loop (Suc k) n pe expression p =
     (case peekPunctuation ''.'' p of Inl e \<Rightarrow> Inl e
      | Inr dot \<Rightarrow>
          if dot then
            (case consumePunctuation ''.'' p of Inl e \<Rightarrow> Inl e
             | Inr p1 \<Rightarrow>
                 (case consumeIdentifierValue p1 of Inl e \<Rightarrow> Inl e
                  | Inr (property, p2) \<Rightarrow>
                      parseCallMember_loop k n pe (MemberExpression expression property) p2))
          else
            (case peekPunctuation ''('' p of Inl e \<Rightarrow> Inl e
             | Inr paren \<Rightarrow>
                 if paren then
                   (case consumePunctuation ''('' p of Inl e \<Rightarrow> Inl e
                    | Inr p1 \<Rightarrow>
                        (case peekPunctuation '')'' p1 of Inl e \<Rightarrow> Inl e
                         | Inr closed \<Rightarrow>
                             (case (if \<not> closed then parseCommaSeparated n pe [] p1
                                    else Inr ([], p1)) of
                                Inl e \<Rightarrow> Inl e
                              | Inr (args, p2) \<Rightarrow>
                                  (case consumePunctuation '')'' p2 of Inl e \<Rightarrow> Inl e
                                   | Inr p3 \<Rightarrow>
                                       parseCallMember_loop k n pe
                                         (CallExpression expression args) p3))))
                 else Inr (expression, p)))"

definition parseCallMemberExpression ::
  "nat \<Rightarrow> (Parser \<Rightarrow> compile_error + Expression \<times> Parser) \<Rightarrow> Parser \<Rightarrow>
     compile_error + Expression \<times> Parser" where
  "parseCallMemberExpression n pe p =
     (case parsePrimaryExpression n pe p of Inl e \<Rightarrow> Inl e
      | Inr (expression, p1) \<Rightarrow> parseCallMember_loop n n pe expression p1)"

text \<open>\<open>parseUnaryExpression\<close> calls itself after a prefix operator; \<open>k\<close> bounds the depth.\<close>

fun parseUnaryExpression ::
  "nat \<Rightarrow> nat \<Rightarrow> (Parser \<Rightarrow> compile_error + Expression \<times> Parser) \<Rightarrow> Parser \<Rightarrow>
     compile_error + Expression \<times> Parser" where
  "parseUnaryExpression 0 n pe p = Inl FuelExhausted"
| "parseUnaryExpression (Suc k) n pe p =
     (case peekOperatorIn [''!'', ''-''] p of Inl e \<Rightarrow> Inl e
      | Inr prefix \<Rightarrow>
          if prefix then
            (case consumeType TT_Operator p of Inl e \<Rightarrow> Inl e
             | Inr (operatorToken, p1) \<Rightarrow>
                 (case parseUnaryExpression k n pe p1 of Inl e \<Rightarrow> Inl e
                  | Inr (argument, p2) \<Rightarrow>
                      Inr (UnaryExpression (tvalue operatorToken) argument, p2)))
          else parseCallMemberExpression n pe p)"

text \<open>
  The four levels of binary operators have the same loop,
  \<open>while (peekOperator(..) || ..) { operator; right = sub(); left = node }\<close>, over their own
  operators \<open>ops\<close>, operand parser \<open>sub\<close> and node constructor \<open>mk\<close>.
\<close>

fun binaryLoop ::
  "nat \<Rightarrow> string list \<Rightarrow> (string \<Rightarrow> Expression \<Rightarrow> Expression \<Rightarrow> Expression) \<Rightarrow>
     (Parser \<Rightarrow> compile_error + Expression \<times> Parser) \<Rightarrow> Expression \<Rightarrow> Parser \<Rightarrow>
     compile_error + Expression \<times> Parser" where
  "binaryLoop 0 ops mk sub left p = Inl FuelExhausted"
| "binaryLoop (Suc k) ops mk sub left p =
     (case peekOperatorIn ops p of Inl e \<Rightarrow> Inl e
      | Inr found \<Rightarrow>
          if found then
            (case consumeType TT_Operator p of Inl e \<Rightarrow> Inl e
             | Inr (operatorToken, p1) \<Rightarrow>
                 (case sub p1 of Inl e \<Rightarrow> Inl e
                  | Inr (right, p2) \<Rightarrow>
                      binaryLoop k ops mk sub (mk (tvalue operatorToken) left right) p2))
          else Inr (left, p))"

definition parseMultiplicativeExpression ::
  "nat \<Rightarrow> (Parser \<Rightarrow> compile_error + Expression \<times> Parser) \<Rightarrow> Parser \<Rightarrow>
     compile_error + Expression \<times> Parser" where
  "parseMultiplicativeExpression n pe p =
     (case parseUnaryExpression n n pe p of Inl e \<Rightarrow> Inl e
      | Inr (left, p1) \<Rightarrow>
          binaryLoop n [''*'', ''/'', ''%''] BinaryExpression (parseUnaryExpression n n pe) left p1)"

definition parseAdditiveExpression ::
  "nat \<Rightarrow> (Parser \<Rightarrow> compile_error + Expression \<times> Parser) \<Rightarrow> Parser \<Rightarrow>
     compile_error + Expression \<times> Parser" where
  "parseAdditiveExpression n pe p =
     (case parseMultiplicativeExpression n pe p of Inl e \<Rightarrow> Inl e
      | Inr (left, p1) \<Rightarrow>
          binaryLoop n [''+'', ''-''] BinaryExpression (parseMultiplicativeExpression n pe) left p1)"

definition parseRelationalExpression ::
  "nat \<Rightarrow> (Parser \<Rightarrow> compile_error + Expression \<times> Parser) \<Rightarrow> Parser \<Rightarrow>
     compile_error + Expression \<times> Parser" where
  "parseRelationalExpression n pe p =
     (case parseAdditiveExpression n pe p of Inl e \<Rightarrow> Inl e
      | Inr (left, p1) \<Rightarrow>
          binaryLoop n [''>'', ''>='', ''<'', ''<=''] BinaryExpression
            (parseAdditiveExpression n pe) left p1)"

definition parseEqualityExpression ::
  "nat \<Rightarrow> (Parser \<Rightarrow> compile_error + Expression \<times> Parser) \<Rightarrow> Parser \<Rightarrow>
     compile_error + Expression \<times> Parser" where
  "parseEqualityExpression n pe p =
     (case parseRelationalExpression n pe p of Inl e \<Rightarrow> Inl e
      | Inr (left, p1) \<Rightarrow>
          binaryLoop n [''=='', ''!=''] BinaryExpression (parseRelationalExpression n pe) left p1)"

definition parseLogicalExpression ::
  "nat \<Rightarrow> (Parser \<Rightarrow> compile_error + Expression \<times> Parser) \<Rightarrow> Parser \<Rightarrow>
     compile_error + Expression \<times> Parser" where
  "parseLogicalExpression n pe p =
     (case parseEqualityExpression n pe p of Inl e \<Rightarrow> Inl e
      | Inr (left, p1) \<Rightarrow>
          binaryLoop n [''&&'', ''||''] LogicalExpression (parseEqualityExpression n pe) left p1)"

text \<open>
  \<open>extractParams\<close>, on the expression inside the group; errors are raised at the current
  token, the arrow. \<open>identifierNames\<close> is the \<open>map\<close> over the elements of a list literal.
\<close>

fun identifierNames :: "Parser \<Rightarrow> Expression list \<Rightarrow> compile_error + string list" where
  "identifierNames p [] = Inr []"
| "identifierNames p (Identifier name # els) =
     (case identifierNames p els of Inl e \<Rightarrow> Inl e | Inr names \<Rightarrow> Inr (name # names))"
| "identifierNames p (el # els) = Inl (errorP ''Lambda parameters must be identifiers'' p)"

fun extractParams :: "Parser \<Rightarrow> Expression \<Rightarrow> compile_error + string list" where
  "extractParams p (Identifier name) = Inr [name]"
| "extractParams p (CallExpression callee args) =
     Inl (errorP ''Unexpected call in lambda parameters'' p)"
| "extractParams p (BinaryExpression operator left right) =
     (if operator = '','' then Inl (errorP ''Comma operator is not supported'' p)
      else Inl (errorP ''Unsupported lambda parameters'' p))"
| "extractParams p (ListExpression elements) = identifierNames p elements"
| "extractParams p (MapExpression entries) =
     Inl (errorP ''Lambda parameters must be identifiers'' p)"
| "extractParams p (Group expr) = extractParams p expr"
| "extractParams p expr = Inl (errorP ''Unsupported lambda parameters'' p)"

definition parseLambdaBody ::
  "(Parser \<Rightarrow> compile_error + Expression \<times> Parser) \<Rightarrow>
   (Parser \<Rightarrow> compile_error + Statement list \<times> Parser) \<Rightarrow> Parser \<Rightarrow>
     compile_error + LambdaBody \<times> Parser" where
  "parseLambdaBody pe pb p =
     (case peekPunctuation ''{'' p of Inl e \<Rightarrow> Inl e
      | Inr brace \<Rightarrow>
          if brace then
            (case pb p of Inl e \<Rightarrow> Inl e | Inr (body, p1) \<Rightarrow> Inr (BlockBody body, p1))
          else
            (case pe p of Inl e \<Rightarrow> Inl e | Inr (body, p1) \<Rightarrow> Inr (ExpressionBody body, p1)))"

definition parseLambdaExpression ::
  "nat \<Rightarrow> (Parser \<Rightarrow> compile_error + Expression \<times> Parser) \<Rightarrow>
   (Parser \<Rightarrow> compile_error + Statement list \<times> Parser) \<Rightarrow> Parser \<Rightarrow>
     compile_error + Expression \<times> Parser" where
  "parseLambdaExpression n pe pb p =
     (case peekOperator ''->'' p of Inl e \<Rightarrow> Inl e
      | Inr arrow \<Rightarrow>
          if arrow then
            (case consumeOperator ''->'' p of Inl e \<Rightarrow> Inl e
             | Inr p1 \<Rightarrow>
                 (case parseLambdaBody pe pb p1 of Inl e \<Rightarrow> Inl e
                  | Inr (body, p2) \<Rightarrow> Inr (LambdaExpression [] body, p2)))
          else
            (case parseLogicalExpression n pe p of Inl e \<Rightarrow> Inl e
             | Inr (expression, p1) \<Rightarrow>
                 (case peekOperator ''->'' p1 of Inl e \<Rightarrow> Inl e
                  | Inr arrow1 \<Rightarrow>
                      if arrow1 then
                        (case expression of
                           Identifier paramName \<Rightarrow>
                             (case consumeOperator ''->'' p1 of Inl e \<Rightarrow> Inl e
                              | Inr p2 \<Rightarrow>
                                  (case parseLambdaBody pe pb p2 of Inl e \<Rightarrow> Inl e
                                   | Inr (body, p3) \<Rightarrow>
                                       Inr (LambdaExpression [paramName] body, p3)))
                         | Group inner \<Rightarrow>
                             (case extractParams p1 inner of Inl e \<Rightarrow> Inl e
                              | Inr params \<Rightarrow>
                                  (case consumeOperator ''->'' p1 of Inl e \<Rightarrow> Inl e
                                   | Inr p2 \<Rightarrow>
                                       (case parseLambdaBody pe pb p2 of Inl e \<Rightarrow> Inl e
                                        | Inr (body, p3) \<Rightarrow>
                                            Inr (LambdaExpression params body, p3))))
                         | _ \<Rightarrow> Inl (errorP ''Invalid lambda parameters'' p1))
                      else Inr (expression, p1))))"

text \<open>
  Statements. \<open>parseBlock_loop\<close> is the loop shared by \<open>parseBlock\<close> and \<open>parseBlockBody\<close>,
  \<open>while (!peekPunctuation('}')) { body.push(parseStatement()); skipNewlines() }\<close>.
\<close>

fun parseBlock_loop ::
  "nat \<Rightarrow> (Parser \<Rightarrow> compile_error + Statement \<times> Parser) \<Rightarrow> Statement list \<Rightarrow> Parser \<Rightarrow>
     compile_error + Statement list \<times> Parser" where
  "parseBlock_loop 0 ps body p = Inl FuelExhausted"
| "parseBlock_loop (Suc k) ps body p =
     (case peekPunctuation ''}'' p of Inl e \<Rightarrow> Inl e
      | Inr closed \<Rightarrow>
          if \<not> closed then
            (case ps p of Inl e \<Rightarrow> Inl e
             | Inr (statement, p1) \<Rightarrow>
                 (case skipNewlines p1 of Inl e \<Rightarrow> Inl e
                  | Inr p2 \<Rightarrow> parseBlock_loop k ps (body @ [statement]) p2))
          else Inr (body, p))"

definition parseBlock ::
  "nat \<Rightarrow> (Parser \<Rightarrow> compile_error + Statement \<times> Parser) \<Rightarrow> Parser \<Rightarrow>
     compile_error + Statement list \<times> Parser" where
  "parseBlock n ps p =
     (case consumePunctuation ''{'' p of Inl e \<Rightarrow> Inl e
      | Inr p1 \<Rightarrow>
          (case skipNewlines p1 of Inl e \<Rightarrow> Inl e
           | Inr p2 \<Rightarrow>
               (case parseBlock_loop n ps [] p2 of Inl e \<Rightarrow> Inl e
                | Inr (body, p3) \<Rightarrow>
                    (case consumePunctuation ''}'' p3 of Inl e \<Rightarrow> Inl e
                     | Inr p4 \<Rightarrow> Inr (body, p4)))))"

definition parseBlockBody ::
  "nat \<Rightarrow> (Parser \<Rightarrow> compile_error + Statement \<times> Parser) \<Rightarrow> Parser \<Rightarrow>
     compile_error + Statement list \<times> Parser" where
  "parseBlockBody n ps p =
     (case skipNewlines p of Inl e \<Rightarrow> Inl e
      | Inr p1 \<Rightarrow> parseBlock_loop n ps [] p1)"

definition parseLet ::
  "(Parser \<Rightarrow> compile_error + Expression \<times> Parser) \<Rightarrow> Parser \<Rightarrow>
     compile_error + Statement \<times> Parser" where
  "parseLet pe p =
     (case consumeIdentifier ''let'' p of Inl e \<Rightarrow> Inl e
      | Inr p1 \<Rightarrow>
          (case consumeIdentifierValue p1 of Inl e \<Rightarrow> Inl e
           | Inr (name, p2) \<Rightarrow>
               (case consumeOperator ''='' p2 of Inl e \<Rightarrow> Inl e
                | Inr p3 \<Rightarrow>
                    (case pe p3 of Inl e \<Rightarrow> Inl e
                     | Inr (v, p4) \<Rightarrow> Inr (LetStatement name v, p4)))))"

definition parseAssignment ::
  "(Parser \<Rightarrow> compile_error + Expression \<times> Parser) \<Rightarrow> Parser \<Rightarrow>
     compile_error + Statement \<times> Parser" where
  "parseAssignment pe p =
     (case pe p of Inl e \<Rightarrow> Inl e
      | Inr (target, p1) \<Rightarrow>
          (case consumeOperator ''='' p1 of Inl e \<Rightarrow> Inl e
           | Inr p2 \<Rightarrow>
               (case pe p2 of Inl e \<Rightarrow> Inl e
                | Inr (v, p3) \<Rightarrow> Inr (AssignmentStatement target v, p3))))"

definition parseListen ::
  "(Parser \<Rightarrow> compile_error + Expression \<times> Parser) \<Rightarrow>
   (Parser \<Rightarrow> compile_error + Statement list \<times> Parser) \<Rightarrow> Parser \<Rightarrow>
     compile_error + Statement \<times> Parser" where
  "parseListen pe pb p =
     (case consumeIdentifier ''listen'' p of Inl e \<Rightarrow> Inl e
      | Inr p1 \<Rightarrow>
          (case pe p1 of Inl e \<Rightarrow> Inl e
           | Inr (selector, p2) \<Rightarrow>
               (case consumeIdentifierToken p2 of Inl e \<Rightarrow> Inl e
                | Inr (eventToken, p3) \<Rightarrow>
                    (case pb p3 of Inl e \<Rightarrow> Inl e
                     | Inr (body, p4) \<Rightarrow>
                         Inr (ListenStatement selector (tvalue eventToken) body, p4)))))"

definition parseSet ::
  "(Parser \<Rightarrow> compile_error + Expression \<times> Parser) \<Rightarrow> Parser \<Rightarrow>
     compile_error + Statement \<times> Parser" where
  "parseSet pe p =
     (case consumeIdentifier ''set'' p of Inl e \<Rightarrow> Inl e
      | Inr p1 \<Rightarrow>
          (case pe p1 of Inl e \<Rightarrow> Inl e
           | Inr (target, p2) \<Rightarrow>
               (case consumeIdentifierToken p2 of Inl e \<Rightarrow> Inl e
                | Inr (propertyToken, p3) \<Rightarrow>
                    (let property = tvalue propertyToken in
                     case (if property = ''attr'' \<or> property = ''css'' \<or> property = ''data''
                           then (case pe p3 of Inl e \<Rightarrow> Inl e
                                 | Inr (extra, p4) \<Rightarrow> Inr (Some extra, p4))
                           else Inr (None, p3)) of
                       Inl e \<Rightarrow> Inl e
                     | Inr (extra, p4) \<Rightarrow>
                         (case consumeIdentifier ''to'' p4 of Inl e \<Rightarrow> Inl e
                          | Inr p5 \<Rightarrow>
                              (case pe p5 of Inl e \<Rightarrow> Inl e
                               | Inr (v, p6) \<Rightarrow>
                                   Inr (SetStatement target property v extra, p6)))))))"

definition parseAdd ::
  "(Parser \<Rightarrow> compile_error + Expression \<times> Parser) \<Rightarrow> Parser \<Rightarrow>
     compile_error + Statement \<times> Parser" where
  "parseAdd pe p =
     (case consumeIdentifier ''add'' p of Inl e \<Rightarrow> Inl e
      | Inr p1 \<Rightarrow>
          (case pe p1 of Inl e \<Rightarrow> Inl e
           | Inr (target, p2) \<Rightarrow>
               (case consumeIdentifierToken p2 of Inl e \<Rightarrow> Inl e
                | Inr (propertyToken, p3) \<Rightarrow>
                    (case consumeIdentifier ''with'' p3 of Inl e \<Rightarrow> Inl e
                     | Inr p4 \<Rightarrow>
                         (case pe p4 of Inl e \<Rightarrow> Inl e
                          | Inr (v, p5) \<Rightarrow>
                              Inr (AddStatement target (tvalue propertyToken) v, p5))))))"

definition parseToggle ::
  "(Parser \<Rightarrow> compile_error + Expression \<times> Parser) \<Rightarrow> Parser \<Rightarrow>
     compile_error + Statement \<times> Parser" where
  "parseToggle pe p =
     (case consumeIdentifier ''toggle'' p of Inl e \<Rightarrow> Inl e
      | Inr p1 \<Rightarrow>
          (case pe p1 of Inl e \<Rightarrow> Inl e
           | Inr (target, p2) \<Rightarrow>
               (case consumeIdentifierToken p2 of Inl e \<Rightarrow> Inl e
                | Inr (modeToken, p3) \<Rightarrow>
                    if tvalue modeToken = ''class'' then
                      (case pe p3 of Inl e \<Rightarrow> Inl e
                       | Inr (argument, p4) \<Rightarrow>
                           Inr (ToggleStatement target ''class'' (Some argument), p4))
                    else if tvalue modeToken = ''show'' \<or> tvalue modeToken = ''hide'' then
                      Inr (ToggleStatement target (tvalue modeToken) None, p3)
                    else
                      Inl (error_at (''Unknown toggle mode '' @ quoted (tvalue modeToken))
                             modeToken))))"

text \<open>
  \<open>do { params.push(consumeIdentifierValue()) } while (consumeIfPunctuation(','))\<close> in
  \<open>parseLambdaParameters\<close>.
\<close>

fun parseLambdaParameters_loop ::
  "nat \<Rightarrow> string list \<Rightarrow> Parser \<Rightarrow> compile_error + string list \<times> Parser" where
  "parseLambdaParameters_loop 0 params p = Inl FuelExhausted"
| "parseLambdaParameters_loop (Suc k) params p =
     (case consumeIdentifierValue p of Inl e \<Rightarrow> Inl e
      | Inr (name, p1) \<Rightarrow>
          (case consumeIfPunctuation '','' p1 of Inl e \<Rightarrow> Inl e
           | Inr (again, p2) \<Rightarrow>
               if again then parseLambdaParameters_loop k (params @ [name]) p2
               else Inr (params @ [name], p2)))"

definition parseLambdaParameters :: "nat \<Rightarrow> Parser \<Rightarrow> compile_error + string list \<times> Parser" where
  "parseLambdaParameters n p =
     (case peekOperator ''->'' p of Inl e \<Rightarrow> Inl e
      | Inr arrow \<Rightarrow>
          if arrow then Inr ([], p)
          else
            (case peekPunctuation ''('' p of Inl e \<Rightarrow> Inl e
             | Inr paren \<Rightarrow>
                 if paren then
                   (case consumePunctuation ''('' p of Inl e \<Rightarrow> Inl e
                    | Inr p1 \<Rightarrow>
                        (case peekPunctuation '')'' p1 of Inl e \<Rightarrow> Inl e
                         | Inr closed \<Rightarrow>
                             (case (if \<not> closed then parseLambdaParameters_loop n [] p1
                                    else Inr ([], p1)) of
                                Inl e \<Rightarrow> Inl e
                              | Inr (params, p2) \<Rightarrow>
                                  (case consumePunctuation '')'' p2 of Inl e \<Rightarrow> Inl e
                                   | Inr p3 \<Rightarrow> Inr (params, p3)))))
                 else
                   (case consumeIdentifierValue p of Inl e \<Rightarrow> Inl e
                    | Inr (name, p1) \<Rightarrow> Inr ([name], p1))))"

definition parseLambdaBlock ::
  "nat \<Rightarrow> (Parser \<Rightarrow> compile_error + Statement \<times> Parser) \<Rightarrow> Parser \<Rightarrow>
     compile_error + (string list \<times> Statement list) \<times> Parser" where
  "parseLambdaBlock n ps p =
     (case consumePunctuation ''{'' p of Inl e \<Rightarrow> Inl e
      | Inr p1 \<Rightarrow>
          (case skipNewlines p1 of Inl e \<Rightarrow> Inl e
           | Inr p2 \<Rightarrow>
               (case parseLambdaParameters n p2 of Inl e \<Rightarrow> Inl e
                | Inr (params, p3) \<Rightarrow>
                    (case consumeOperator ''->'' p3 of Inl e \<Rightarrow> Inl e
                     | Inr p4 \<Rightarrow>
                         (case parseBlockBody n ps p4 of Inl e \<Rightarrow> Inl e
                          | Inr (body, p5) \<Rightarrow>
                              (case consumePunctuation ''}'' p5 of Inl e \<Rightarrow> Inl e
                               | Inr p6 \<Rightarrow> Inr ((params, body), p6)))))))"

definition parseThenClause ::
  "nat \<Rightarrow> (Parser \<Rightarrow> compile_error + Statement \<times> Parser) \<Rightarrow> Parser \<Rightarrow>
     compile_error + (string list \<times> Statement list) \<times> Parser" where
  "parseThenClause n ps p =
     (case consumeIdentifier ''then'' p of Inl e \<Rightarrow> Inl e
      | Inr p1 \<Rightarrow> parseLambdaBlock n ps p1)"

text \<open>The \<open>while (true)\<close> loop of \<open>parseSend\<close>.\<close>

fun parseSend_loop ::
  "nat \<Rightarrow> nat \<Rightarrow> (Parser \<Rightarrow> compile_error + Statement \<times> Parser) \<Rightarrow>
   (string list \<times> Statement list) list \<Rightarrow> Parser \<Rightarrow>
     compile_error + (string list \<times> Statement list) list \<times> Parser" where
  "parseSend_loop 0 n ps chain p = Inl FuelExhausted"
| "parseSend_loop (Suc k) n ps chain p =
     (case skipNewlines p of Inl e \<Rightarrow> Inl e
      | Inr p1 \<Rightarrow>
          (case peekIdentifier ''then'' p1 of Inl e \<Rightarrow> Inl e
           | Inr thenNext \<Rightarrow>
               if \<not> thenNext then Inr (chain, p1)
               else
                 (case parseThenClause n ps p1 of Inl e \<Rightarrow> Inl e
                  | Inr (clause, p2) \<Rightarrow> parseSend_loop k n ps (chain @ [clause]) p2)))"

definition parseSend ::
  "nat \<Rightarrow> (Parser \<Rightarrow> compile_error + Expression \<times> Parser) \<Rightarrow>
   (Parser \<Rightarrow> compile_error + Statement \<times> Parser) \<Rightarrow> Parser \<Rightarrow>
     compile_error + Statement \<times> Parser" where
  "parseSend n pe ps p =
     (case consumeIdentifier ''send'' p of Inl e \<Rightarrow> Inl e
      | Inr p1 \<Rightarrow>
          (case pe p1 of Inl e \<Rightarrow> Inl e
           | Inr (url, p2) \<Rightarrow>
               (case consumeIdentifierToken p2 of Inl e \<Rightarrow> Inl e
                | Inr (methodToken, p3) \<Rightarrow>
                    (case pe p3 of Inl e \<Rightarrow> Inl e
                     | Inr (payload, p4) \<Rightarrow>
                         (case parseSend_loop n n ps [] p4 of Inl e \<Rightarrow> Inl e
                          | Inr (chain, p5) \<Rightarrow>
                              Inr (SendStatement url (tvalue methodToken) payload chain, p5))))))"

definition parseTemplate :: "Parser \<Rightarrow> compile_error + Statement \<times> Parser" where
  "parseTemplate p =
     (case consumeIdentifier ''template'' p of Inl e \<Rightarrow> Inl e
      | Inr p1 \<Rightarrow>
          (case consumeIdentifierValue p1 of Inl e \<Rightarrow> Inl e
           | Inr (name, p2) \<Rightarrow>
               (case consumeOperator ''='' p2 of Inl e \<Rightarrow> Inl e
                | Inr p3 \<Rightarrow>
                    (case consumeType TT_String p3 of Inl e \<Rightarrow> Inl e
                     | Inr (templateToken, p4) \<Rightarrow>
                         Inr (TemplateStatement name (slice_1_m1 (tvalue templateToken)), p4)))))"

definition parseBind ::
  "(Parser \<Rightarrow> compile_error + Expression \<times> Parser) \<Rightarrow> Parser \<Rightarrow>
     compile_error + Statement \<times> Parser" where
  "parseBind pe p =
     (case consumeIdentifier ''bind'' p of Inl e \<Rightarrow> Inl e
      | Inr p1 \<Rightarrow>
          (case pe p1 of Inl e \<Rightarrow> Inl e
           | Inr (src, p2) \<Rightarrow>
               (case consumeIdentifier ''to'' p2 of Inl e \<Rightarrow> Inl e
                | Inr p3 \<Rightarrow>
                    (case pe p3 of Inl e \<Rightarrow> Inl e
                     | Inr (selector, p4) \<Rightarrow>
                         (case consumeIdentifierToken p4 of Inl e \<Rightarrow> Inl e
                          | Inr (propertyToken, p5) \<Rightarrow>
                              Inr (BindStatement src selector (tvalue propertyToken), p5))))))"

definition parseCallJs ::
  "(Parser \<Rightarrow> compile_error + Expression \<times> Parser) \<Rightarrow> Parser \<Rightarrow>
     compile_error + Statement \<times> Parser" where
  "parseCallJs pe p =
     (case consumeIdentifier ''call'' p of Inl e \<Rightarrow> Inl e
      | Inr p1 \<Rightarrow>
          (case consumeIdentifier ''js'' p1 of Inl e \<Rightarrow> Inl e
           | Inr p2 \<Rightarrow>
               (case pe p2 of Inl e \<Rightarrow> Inl e
                | Inr (functionName, p3) \<Rightarrow>
                    (case peekIdentifier ''with'' p3 of Inl e \<Rightarrow> Inl e
                     | Inr withNext \<Rightarrow>
                         if withNext then
                           (case consumeIdentifier ''with'' p3 of Inl e \<Rightarrow> Inl e
                            | Inr p4 \<Rightarrow>
                                (case pe p4 of Inl e \<Rightarrow> Inl e
                                 | Inr (payload, p5) \<Rightarrow>
                                     Inr (CallJsStatement functionName (Some payload), p5)))
                         else Inr (CallJsStatement functionName None, p3)))))"

text \<open>\<open>parseIf\<close> calls itself on \<open>else if\<close>; \<open>k\<close> bounds the length of the chain.\<close>

fun parseIf ::
  "nat \<Rightarrow> (Parser \<Rightarrow> compile_error + Expression \<times> Parser) \<Rightarrow>
   (Parser \<Rightarrow> compile_error + Statement list \<times> Parser) \<Rightarrow> Parser \<Rightarrow>
     compile_error + IfNode \<times> Parser" where
  "parseIf 0 pe pb p = Inl FuelExhausted"
| "parseIf (Suc k) pe pb p =
     (case consumeIdentifier ''if'' p of Inl e \<Rightarrow> Inl e
      | Inr p1 \<Rightarrow>
          (case pe p1 of Inl e \<Rightarrow> Inl e
           | Inr (test, p2) \<Rightarrow>
               (case pb p2 of Inl e \<Rightarrow> Inl e
                | Inr (consequent, p3) \<Rightarrow>
                    (case peekIdentifier ''else'' p3 of Inl e \<Rightarrow> Inl e
                     | Inr elseNext \<Rightarrow>
                         if elseNext then
                           (case consumeIdentifier ''else'' p3 of Inl e \<Rightarrow> Inl e
                            | Inr p4 \<Rightarrow>
                                (case peekIdentifier ''if'' p4 of Inl e \<Rightarrow> Inl e
                                 | Inr ifNext \<Rightarrow>
                                     if ifNext then
                                       (case parseIf k pe pb p4 of Inl e \<Rightarrow> Inl e
                                        | Inr (node, p5) \<Rightarrow>
                                            Inr (IfNode test consequent (Some (ElseIf node)), p5))
                                     else
                                       (case pb p4 of Inl e \<Rightarrow> Inl e
                                        | Inr (blk, p5) \<Rightarrow>
                                            Inr (IfNode test consequent (Some (ElseBlock blk)),
                                                 p5))))
                         else Inr (IfNode test consequent None, p3)))))"

definition parseFor ::
  "(Parser \<Rightarrow> compile_error + Expression \<times> Parser) \<Rightarrow>
   (Parser \<Rightarrow> compile_error + Statement list \<times> Parser) \<Rightarrow> Parser \<Rightarrow>
     compile_error + Statement \<times> Parser" where
  "parseFor pe pb p =
     (case consumeIdentifier ''for'' p of Inl e \<Rightarrow> Inl e
      | Inr p1 \<Rightarrow>
          (case consumeIdentifierValue p1 of Inl e \<Rightarrow> Inl e
           | Inr (variable, p2) \<Rightarrow>
               (case consumeIdentifier ''in'' p2 of Inl e \<Rightarrow> Inl e
                | Inr p3 \<Rightarrow>
                    (case pe p3 of Inl e \<Rightarrow> Inl e
                     | Inr (iterable, p4) \<Rightarrow>
                         (case pb p4 of Inl e \<Rightarrow> Inl e
                          | Inr (body, p5) \<Rightarrow>
                              Inr (ForStatement variable iterable body, p5))))))"

text \<open>
  The body of \<open>parseStatement\<close>: dispatch on a leading keyword, otherwise an assignment if
  the line looks like one, otherwise an expression statement.
\<close>

definition parseStatement_body ::
  "nat \<Rightarrow> (Parser \<Rightarrow> compile_error + Expression \<times> Parser) \<Rightarrow>
   (Parser \<Rightarrow> compile_error + Statement \<times> Parser) \<Rightarrow> Parser \<Rightarrow>
     compile_error + Statement \<times> Parser" where
  "parseStatement_body n pe ps p =
     (case peekP p of Inl e \<Rightarrow> Inl e
      | Inr token \<Rightarrow>
          (let keyword = (if ttype token = TT_Identifier then tvalue token else []);
               pb = parseBlock n ps
           in if keyword = ''let'' then parseLet pe p
              else if keyword = ''listen'' then parseListen pe pb p
              else if keyword = ''set'' then parseSet pe p
              else if keyword = ''add'' then parseAdd pe p
              else if keyword = ''toggle'' then parseToggle pe p
              else if keyword = ''send'' then parseSend n pe ps p
              else if keyword = ''template'' then parseTemplate p
              else if keyword = ''bind'' then parseBind pe p
              else if keyword = ''call'' then parseCallJs pe p
              else if keyword = ''if'' then
                (case parseIf n pe pb p of Inl e \<Rightarrow> Inl e
                 | Inr (node, p1) \<Rightarrow> Inr (IfStatement node, p1))
              else if keyword = ''for'' then parseFor pe pb p
              else if looksLikeAssignment p then parseAssignment pe p
              else
                (case pe p of Inl e \<Rightarrow> Inl e
                 | Inr (expression, p1) \<Rightarrow> Inr (ExpressionStatement expression, p1))))"

text \<open>
  \<open>parseExpression\<close> and \<open>parseStatement\<close>, by recursion on the fuel: each call of one of
  them from inside the other methods runs with one unit less.
\<close>

fun parseExpression :: "nat \<Rightarrow> Parser \<Rightarrow> compile_error + Expression \<times> Parser"
  and parseStatement :: "nat \<Rightarrow> Parser \<Rightarrow> compile_error + Statement \<times> Parser" where
  "parseExpression 0 p = Inl FuelExhausted"
| "parseExpression (Suc n) p =
     parseLambdaExpression n (\<lambda>q. parseExpression n q)
       (parseBlock n (\<lambda>q. parseStatement n q)) p"
| "parseStatement 0 p = Inl FuelExhausted"
| "parseStatement (Suc n) p =
     parseStatement_body n (\<lambda>q. parseExpression n q) (\<lambda>q. parseStatement n q) p"

datatype Program = Program "Statement list"

fun parse_loop ::
  "nat \<Rightarrow> (Parser \<Rightarrow> compile_error + Statement \<times> Parser) \<Rightarrow> Statement list \<Rightarrow> Parser \<Rightarrow>
     compile_error + Statement list" where
  "parse_loop 0 ps body p = Inl FuelExhausted"
| "parse_loop (Suc k) ps body p =
     (case is_type TT_EOF p of Inl e \<Rightarrow> Inl e
      | Inr atEnd \<Rightarrow>
          if atEnd then Inr body
          else
            (case skipNewlines p of Inl e \<Rightarrow> Inl e
             | Inr p1 \<Rightarrow>
                 (case is_type TT_EOF p1 of Inl e \<Rightarrow> Inl e
                  | Inr atEnd1 \<Rightarrow>
                      if atEnd1 then Inr body
                      else
                        (case ps p1 of Inl e \<Rightarrow> Inl e
                         | Inr (statement, p2) \<Rightarrow>
                             (case skipNewlines p2 of Inl e \<Rightarrow> Inl e
                              | Inr p3 \<Rightarrow> parse_loop k ps (body @ [statement]) p3)))))"

definition parse :: "nat \<Rightarrow> Parser \<Rightarrow> compile_error + Program" where
  "parse n p =
     (case parse_loop n (parseStatement n) [] p of Inl e \<Rightarrow> Inl e
      | Inr body \<Rightarrow> Inr (Program body))"

text \<open>The constructor: \<open>new Parser(source)\<close> tokenizes the source.\<close>

definition newParser :: "string \<Rightarrow> compile_error + Parser" where
  "newParser src =
     (case tokenize src of Inl e \<Rightarrow> Inl e | Inr ts \<Rightarrow> Inr \<lparr>tokens = ts, position = 0\<rparr>)"

section \<open>Driver\<close>

text \<open>
  \<open>parseSource\<close> is \<open>new Parser(source).parse()\<close>; \<open>parseExpressionSource\<close> runs
  \<open>parseExpression\<close> on the tokens of a text, for statements about single expressions.
\<close>

definition parseSource :: "nat \<Rightarrow> string \<Rightarrow> compile_error + Program" where
  "parseSource n src = (case newParser src of Inl e \<Rightarrow> Inl e | Inr p \<Rightarrow> parse n p)"

definition parseExpressionSource :: "nat \<Rightarrow> string \<Rightarrow> compile_error + Expression" where
  "parseExpressionSource n src =
     (case newParser src of Inl e \<Rightarrow> Inl e
      | Inr p \<Rightarrow> (case parseExpression n p of Inl e \<Rightarrow> Inl e | Inr (x, p1) \<Rightarrow> Inr x))"

definition newCodeGenerator :: CodeGenerator where
  "newCodeGenerator = \<lparr>output_buf = [], indentLevel = 0\<rparr>"

text \<open>
  \<open>generate\<close> runs \<open>generateStatement\<close> over the body of the program, which is the loop of
  \<open>generateBlock\<close>, and joins the buffer.
\<close>

definition generate :: "(jsnumber \<Rightarrow> string) \<Rightarrow> Program \<Rightarrow> CodeGenerator \<Rightarrow> string" where
  "generate ns program g =
     (case program of Program body \<Rightarrow> concat (output_buf (generateBlock ns body g)))"

text \<open>\<open>text.split(sep)\<close> for a separator of one character.\<close>

fun splitOn :: "char \<Rightarrow> string \<Rightarrow> string list" where
  "splitOn sep [] = [[]]"
| "splitOn sep (c # cs) =
     (if c = sep then [] # splitOn sep cs
      else (case splitOn sep cs of l # ls \<Rightarrow> (c # l) # ls | [] \<Rightarrow> [[c]]))"

definition indentLines :: "string \<Rightarrow> nat \<Rightarrow> string" where
  "indentLines text level =
     (if text = [] then []
      else
        (let prefix = concat (replicate level ''  '');
             array = splitOn (CHR 0x0A) text;
             kept = map snd (filter (\<lambda>(i, ln). \<not> (ln = [] \<and> i = length array - 1))
                                    (enumerate 0 array));
             mapped = map (\<lambda>ln. if ln \<noteq> [] then prefix @ ln else ln) kept
         in join [CHR 0x0A] mapped @ [CHR 0x0A]))"

record CompileResult =
  code :: string

definition compileSprout ::
  "nat \<Rightarrow> (jsnumber \<Rightarrow> string) \<Rightarrow> string \<Rightarrow> compile_error + CompileResult" where
  "compileSprout n ns src =
     (case newParser src of Inl e \<Rightarrow> Inl e
      | Inr parser \<Rightarrow>
          (case parse n parser of Inl e \<Rightarrow> Inl e
           | Inr program \<Rightarrow>
               (let body = generate ns program newCodeGenerator;
                    prelude = join [CHR 0x0A]
                      [''Sprout.run((sprout) => {'',
                       ''  const state = sprout.state;'',
                       ''  const std = sprout.std;'',
                       ''  const { time, random, list, json, url } = std;'',
                       []];
                    indentedBody = indentLines body 1
                in Inr \<lparr>code = prelude @ indentedBody @ ''});'' @ [CHR 0x0A]\<rparr>)))"

definition indentOne :: "string \<Rightarrow> string" where
  "indentOne ln = (if ln = [] then [] else ''  '' @ ln)"

lemma splitOn_line:
  "sep \<notin> set l \<Longrightarrow> splitOn sep (l @ sep # rest) = l # splitOn sep rest"
  by (induction l) (auto split: list.splits)

lemma splitOn_lines:
  "list_all (\<lambda>l. sep \<notin> set l) ls \<Longrightarrow>
     splitOn sep (concat (map (\<lambda>l. l @ [sep]) ls)) = ls @ [[]]"
  by (induction ls) (simp_all add: splitOn_line)

lemma drop_last_empty:
  "map snd (filter (\<lambda>(i, ln). \<not> (ln = [] \<and> i = length (xs @ [[]]) - 1))
              (enumerate 0 (xs @ [[]]))) = xs"
proof -
  let ?P = "\<lambda>(i, ln). \<not> (ln = [] \<and> i = length (xs @ [[]]) - 1)"
  have a: "enumerate 0 (xs @ [[]]) = enumerate 0 xs @ [(length xs, [])]"
    by (simp add: enumerate_append_eq)
  have b: "filter ?P (enumerate 0 xs) = enumerate 0 xs"
    by (auto simp: filter_id_conv in_set_enumerate_eq)
  have c: "filter ?P [(length xs, [])] = []"
    by simp
  have "filter ?P (enumerate 0 (xs @ [[]])) = enumerate 0 xs"
    unfolding a filter_append b c by simp
  then show ?thesis
    by (simp only: map_snd_enumerate)
qed

lemma join_append:
  "xs \<noteq> [] \<Longrightarrow> join sep xs @ sep = concat (map (\<lambda>x. x @ sep) xs)"
  by (induction sep xs rule: join.induct) simp_all

lemma indentLines_lines:
  assumes "list_all (\<lambda>l. CHR 0x0A \<notin> set l) ls" "ls \<noteq> []"
  shows "indentLines (concat (map (\<lambda>l. l @ [CHR 0x0A]) ls)) 1 =
           concat (map (\<lambda>l. indentOne l @ [CHR 0x0A]) ls)"
proof -
  let ?text = "concat (map (\<lambda>l. l @ [CHR 0x0A]) ls)"
  from assms(2) have ne: "?text \<noteq> []"
    by (cases ls) simp_all
  have s: "splitOn (CHR 0x0A) ?text = ls @ [[]]"
    by (rule splitOn_lines[OF assms(1)])
  have k: "map snd (filter (\<lambda>(i, ln). \<not> (ln = [] \<and> i = length (splitOn (CHR 0x0A) ?text) - 1))
                      (enumerate 0 (splitOn (CHR 0x0A) ?text))) = ls"
    unfolding s by (rule drop_last_empty)
  have p: "concat (replicate 1 ''  '') = ''  ''"
    by simp
  have m: "map (\<lambda>ln. if ln \<noteq> [] then ''  '' @ ln else ln) ls = map indentOne ls"
    by (simp add: indentOne_def)
  from assms(2) have "map indentOne ls \<noteq> []" by simp
  from join_append[OF this, of "[CHR 0x0A]"]
  have j: "join [CHR 0x0A] (map indentOne ls) @ [CHR 0x0A] =
             concat (map (\<lambda>l. indentOne l @ [CHR 0x0A]) ls)"
    by (simp add: comp_def)
  show ?thesis
    unfolding indentLines_def Let_def k p m j using ne by simp
qed

text \<open>
  The text the driver puts before and after the indented body: \<open>prelude_text\<close> is the
  value of \<open>prelude\<close> in \<open>compileSprout\<close> (the five array elements joined by newlines),
  \<open>epilogue_text\<close> is the closing \<open>});\<close> and a newline. \<open>indentOne\<close> is one line indented
  by one level, an empty line staying empty.
\<close>

definition prelude_text :: string where
  "prelude_text =
     ''Sprout.run((sprout) => {'' @ [CHR 0x0A] @
     ''  const state = sprout.state;'' @ [CHR 0x0A] @
     ''  const std = sprout.std;'' @ [CHR 0x0A] @
     ''  const { time, random, list, json, url } = std;'' @ [CHR 0x0A]"

definition epilogue_text :: string where
  "epilogue_text = ''});'' @ [CHR 0x0A]"


subsection \<open>Properties of the parser and the driver\<close>

text \<open>
  C1, as stated, fails: \<open>(x, y) -> x + y\<close> does not parse to a lambda with two
  parameters. A parenthesised group holds one expression, so the parser fails at the
  comma with \<open>Expected ')'\<close> (line 1, column 3).
\<close>

theorem lambda_two_parameters_counterexample:
  "parseExpressionSource 10 ''(x, y) -> x + y'' =
     Inl (SyntaxError (''Expected '' @ quoted '')'') 1 3)"
  by code_simp

text \<open>
  C1, amended. With any fuel of at least 10: \<open>x -> x + 1\<close> parses to a lambda with the
  parameter list \<open>[x]\<close>; \<open>(x, y) -> x + y\<close> fails with a syntax error at the comma;
  \<open>(x + y) -> x\<close> fails with a syntax error (\<open>Unsupported lambda parameters\<close>); and the
  lambda with the parameter list \<open>[x, y]\<close> is obtained from a list of identifiers inside
  the group, \<open>([x, y]) -> x + y\<close>.
\<close>

theorem lambda_disambiguation:
  "parseExpressionSource (n + 10) ''x -> x + 1'' =
     Inr (LambdaExpression [''x'']
            (ExpressionBody (BinaryExpression ''+'' (Identifier ''x'')
                               (Literal (NumberValue (Number ''1'')))))) \<and>
   parseExpressionSource (n + 10) ''(x, y) -> x + y'' =
     Inl (SyntaxError (''Expected '' @ quoted '')'') 1 3) \<and>
   parseExpressionSource (n + 10) ''(x + y) -> x'' =
     Inl (SyntaxError ''Unsupported lambda parameters'' 1 6) \<and>
   parseExpressionSource (n + 10) ''([x, y]) -> x + y'' =
     Inr (LambdaExpression [''x'', ''y'']
            (ExpressionBody (BinaryExpression ''+'' (Identifier ''x'') (Identifier ''y''))))"
proof -
  have f: "n + 10 = Suc (Suc (Suc (Suc (Suc (Suc (Suc (Suc (Suc (Suc n)))))))))"
    by simp
  show ?thesis
    unfolding f by code_simp
qed




text \<open>
  C8. Whenever \<open>compileSprout\<close> returns, its code is the fixed prelude, then the generated
  body passed through \<open>indentLines\<close> at level 1, then the fixed epilogue; prelude and
  epilogue do not depend on the source. \<open>indentLines\<close> at level 1 turns an empty body
  into nothing and a body of newline-terminated lines into the same lines, each
  non-empty one preceded by two spaces.
\<close>

theorem compile_wrapping:
  "(compileSprout n ns src = Inr r \<longrightarrow>
      (\<exists>program. parseSource n src = Inr program \<and>
         code r = prelude_text @ indentLines (generate ns program newCodeGenerator) 1 @
                  epilogue_text)) \<and>
   indentLines [] 1 = [] \<and>
   (list_all (\<lambda>l. CHR 0x0A \<notin> set l) ls \<and> ls \<noteq> [] \<longrightarrow>
      indentLines (concat (map (\<lambda>l. l @ [CHR 0x0A]) ls)) 1 =
        concat (map (\<lambda>l. indentOne l @ [CHR 0x0A]) ls))"
proof (intro conjI impI)
  assume "compileSprout n ns src = Inr r"
  then show "\<exists>program. parseSource n src = Inr program \<and>
         code r = prelude_text @ indentLines (generate ns program newCodeGenerator) 1 @
                  epilogue_text"
    by (auto simp: compileSprout_def parseSource_def Let_def prelude_text_def epilogue_text_def
             split: sum.splits)
next
  show "indentLines [] 1 = []"
    by (simp add: indentLines_def)
next
  assume a: "list_all (\<lambda>l. CHR 0x0A \<notin> set l) ls \<and> ls \<noteq> []"
  from a have a1: "list_all (\<lambda>l. CHR 0x0A \<notin> set l) ls" and a2: "ls \<noteq> []"
    by simp_all
  show "indentLines (concat (map (\<lambda>l. l @ [CHR 0x0A]) ls)) 1 =
        concat (map (\<lambda>l. indentOne l @ [CHR 0x0A]) ls)"
    by (rule indentLines_lines[OF a1 a2])
qed


theorem compile_wrapping_witness:
  \<open>compileSprout 10 tokenText (''let n = 0'' @ [CHR 0x0A] @ ''set "#count" text to n'') =
     Inr \<lparr>code = prelude_text @
                 ''  let n = 0;'' @ [CHR 0x0A] @
                 ''  sprout.set("#count", "text", n);'' @ [CHR 0x0A] @
                 epilogue_text\<rparr> \<and>
   (\<exists>program.
      parseSource 10 (''let n = 0'' @ [CHR 0x0A] @ ''set "#count" text to n'') = Inr program \<and>
      prelude_text @ ''  let n = 0;'' @ [CHR 0x0A] @
        ''  sprout.set("#count", "text", n);'' @ [CHR 0x0A] @ epilogue_text =
      prelude_text @ indentLines (generate tokenText program newCodeGenerator) 1 @
        epilogue_text)\<close>
proof -
  have h: \<open>compileSprout 10 tokenText (''let n = 0'' @ [CHR 0x0A] @ ''set "#count" text to n'') =
     Inr \<lparr>code = prelude_text @
                 ''  let n = 0;'' @ [CHR 0x0A] @
                 ''  sprout.set("#count", "text", n);'' @ [CHR 0x0A] @
                 epilogue_text\<rparr>\<close>
    by code_simp
  from compile_wrapping[THEN conjunct1, rule_format, OF h] h show ?thesis
    by simp
qed

end
